theory Spec2Isabelle
  imports Main "HOL-Library.Char_ord" "HOL-Library.List_Lexorder"
begin

section \<open>Python values used by the langserver plugin\<close>

text \<open>
  A Python \<open>str\<close> is modelled as a \<open>string\<close>, one \<open>char\<close> per code point (code points
  below 256); \<open>bytes\<close> objects are lists of byte values. Exceptions are values of the
  datatype \<open>exn\<close>; a function that may raise returns \<open>exn + 'a\<close>.
\<close>

type_synonym bytes = "nat list"

datatype exn =
    NameError string
  | KeyError
  | ValueError
  | AttributeError
  | AssertionError
  | NotImplementedError
  | OSError int int

text \<open>Truthiness of an optional string: \<open>None\<close> and \<open>''\<close> are false.\<close>

fun truthy :: "string option \<Rightarrow> bool" where
  "truthy None = False"
| "truthy (Some s) = (s \<noteq> [])"

text \<open>\<open>a or b\<close> where \<open>a\<close> is an optional string and \<open>b\<close> a string.\<close>

fun py_or :: "string option \<Rightarrow> string \<Rightarrow> string" where
  "py_or None d = d"
| "py_or (Some s) d = (if s \<noteq> [] then s else d)"

text \<open>\<open>str.isspace\<close> on one character, for the code points below 256.\<close>

definition isspace :: "char \<Rightarrow> bool" where
  "isspace c = (List.member [9, 10, 11, 12, 13, 28, 29, 30, 31, 32, 133, 160] (of_char c :: nat))"

definition lstrip :: "string \<Rightarrow> string" where
  "lstrip s = dropWhile isspace s"

definition rstrip :: "string \<Rightarrow> string" where
  "rstrip s = rev (dropWhile isspace (rev s))"

definition strip :: "string \<Rightarrow> string" where
  "strip s = rstrip (lstrip s)"

definition startswith :: "string \<Rightarrow> string \<Rightarrow> bool" where
  "startswith s p = (take (length p) s = p)"

text \<open>\<open>s.split(sep)\<close> for a one-character separator: never an empty list.\<close>

fun split :: "char \<Rightarrow> string \<Rightarrow> string list" where
  "split sep [] = [[]]"
| "split sep (c # cs) =
     (if c = sep then [] # split sep cs
      else (case split sep cs of
              [] \<Rightarrow> [[c]]
            | p # ps \<Rightarrow> (c # p) # ps))"

definition isdigit :: "char \<Rightarrow> bool" where
  "isdigit c = (CHR ''0'' \<le> c \<and> c \<le> CHR ''9'')"

definition digit_value :: "char \<Rightarrow> nat" where
  "digit_value c = of_char c - of_char CHR ''0''"

definition decimal_value :: "string \<Rightarrow> nat" where
  "decimal_value ds = foldl (\<lambda>acc d. 10 * acc + digit_value d) 0 ds"

text \<open>
  The whitespace \<open>int(s)\<close> skips around a number, for the code points below 256: the
  ASCII whitespace of C (9 to 13 and 32) and the non-ASCII spaces (133 and 160); unlike
  \<open>str.strip\<close> it does not skip the separators 28 to 31.
\<close>

definition int_isspace :: "char \<Rightarrow> bool" where
  "int_isspace c = (List.member [9, 10, 11, 12, 13, 32, 133, 160] (of_char c :: nat))"

definition int_strip :: "string \<Rightarrow> string" where
  "int_strip s = rev (dropWhile int_isspace (rev (dropWhile int_isspace s)))"

text \<open>
  \<open>int(s)\<close> for a \<open>str\<close>: surrounding whitespace is skipped, one sign is allowed, and the
  digits may be grouped by single underscores; anything else raises \<open>ValueError\<close>.
\<close>

definition py_int :: "string \<Rightarrow> exn + int" where
  "py_int s =
     (let t = int_strip s;
          neg = (t \<noteq> [] \<and> hd t = CHR ''-'');
          body = (if t \<noteq> [] \<and> (hd t = CHR ''-'' \<or> hd t = CHR ''+'') then tl t else t);
          groups = split CHR ''_'' body
      in if list_all (\<lambda>g. g \<noteq> [] \<and> list_all isdigit g) groups
         then Inr ((if neg then - 1 else 1) * int (decimal_value (concat groups)))
         else Inl ValueError)"

section \<open>Free functions of lsp.py\<close>

subsection \<open>\<open>get_completion_item_doc\<close>\<close>

text \<open>The fields of a completion item (of the protocol library) that the plugin reads.\<close>

record CompletionItem =
  label :: string
  sortText :: "string option"
  filterText :: "string option"
  insertText :: "string option"
  documentation :: "string option"

definition get_completion_item_doc :: "CompletionItem \<Rightarrow> string" where
  "get_completion_item_doc item =
     (if truthy (documentation item) then
        (if startswith (the (documentation item)) (strip (label item))
         then the (documentation item)
         else strip (label item) @ [CHR 0x0A, CHR 0x0A] @ the (documentation item))
      else label item)"

subsection \<open>\<open>_position_tk2lsp\<close>\<close>

record Position =
  line :: int
  character :: int

text \<open>
  \<open>line, column = map(int, tk_position_string.split('.'))\<close>: the unpacking needs exactly two
  pieces, each accepted by \<open>int\<close>; every failure is a \<open>ValueError\<close>.
\<close>

definition parse_tk_position :: "string \<Rightarrow> exn + (int \<times> int)" where
  "parse_tk_position tk_position_string =
     (case map py_int (split CHR ''.'' tk_position_string) of
        [Inr l, Inr c] \<Rightarrow> Inr (l, c)
      | _ \<Rightarrow> Inl ValueError)"

text \<open>
  The keyword argument \<open>next_column\<close> is a \<open>bool\<close>; the statement \<open>next_column += 1\<close>
  rebinds that local name to an integer (\<open>True + 1 = 2\<close>), which is not read again. The
  returned position is built from \<open>line\<close> and \<open>column\<close>.
\<close>

definition position_tk2lsp :: "string \<Rightarrow> bool \<Rightarrow> exn + Position" where
  "position_tk2lsp tk_position_string next_column =
     (case parse_tk_position tk_position_string of
        Inl e \<Rightarrow> Inl e
      | Inr (ln, column) \<Rightarrow>
          (let next_column' = (if next_column then (of_bool next_column :: int) + 1
                               else of_bool next_column)
           in Inr \<lparr>line = ln - 1, character = column\<rparr>))"

section \<open>The language server session\<close>

subsection \<open>Collaborators\<close>

text \<open>
  The protocol client (\<open>sansio_lsp_client.Client\<close>) is outside the repository. The model
  keeps the state it reports, the calls the plugin makes on it, in order, and the identifier
  it hands out for the next request.
\<close>

datatype ClientState =
    NOT_INITIALIZED | WAITING_FOR_INITIALIZED | NORMAL
  | WAITING_FOR_SHUTDOWN | SHUTDOWN | EXITED

record TextDocumentItem =
  uri :: string
  languageId :: string
  doc_text :: string
  version :: int

record ContentChange =
  range_start :: Position
  range_end :: Position
  new_text :: string

datatype client_call =
    DidOpen TextDocumentItem
  | DidChange string int "ContentChange list"
  | Completions string Position
  | ShutdownRequest
  | ExitNotification

record Client =
  state :: ClientState
  calls :: "client_call list"
  next_id :: nat

definition did_open :: "TextDocumentItem \<Rightarrow> Client \<Rightarrow> Client" where
  "did_open item c = c\<lparr>calls := calls c @ [DidOpen item]\<rparr>"

definition did_change :: "string \<Rightarrow> int \<Rightarrow> ContentChange list \<Rightarrow> Client \<Rightarrow> Client" where
  "did_change u v changes c = c\<lparr>calls := calls c @ [DidChange u v changes]\<rparr>"

definition completions :: "string \<Rightarrow> Position \<Rightarrow> Client \<Rightarrow> nat \<times> Client" where
  "completions u pos c =
     (next_id c, c\<lparr>calls := calls c @ [Completions u pos], next_id := Suc (next_id c)\<rparr>)"

definition shutdown :: "Client \<Rightarrow> Client" where
  "shutdown c = c\<lparr>calls := calls c @ [ShutdownRequest]\<rparr>"

definition exit_client :: "Client \<Rightarrow> Client" where
  "exit_client c = c\<lparr>calls := calls c @ [ExitNotification]\<rparr>"

datatype MessageType = MT_ERROR | MT_WARNING | MT_INFO | MT_LOG

datatype lsp_event =
    Initialized string
  | Shutdown
  | Completion nat "CompletionItem list"
  | PublishDiagnostics
  | LogMessage MessageType string
  | OtherEvent string

text \<open>
  A file tab of the editor, as far as the plugin reads it. The three \<open>textwidget\<close> fields
  are the answers of the Tk text widget: the whole text (\<open>get('1.0', 'end - 1 char')\<close>),
  the text from the start of the line to a position (\<open>get('<pos> linestart', '<pos>')\<close>) and
  the index \<open>'<pos> - <n> chars'\<close>.
\<close>

record FileTab =
  path :: string
  langserver_language_id :: string
  textwidget_get_all :: string
  textwidget_get_linestart_to :: "string \<Rightarrow> string"
  textwidget_index_minus_chars :: "string \<Rightarrow> nat \<Rightarrow> string"

text \<open>
  What a call reads from outside the session: the tabs (by reference), \<open>os.path.abspath\<close>,
  \<open>urllib.request.pathname2url\<close>, and the characters that \<open>\w\<close> of the \<open>re\<close> module matches.
\<close>

record env =
  tabs :: "nat \<Rightarrow> FileTab"
  abspath :: "string \<Rightarrow> string"
  pathname2url :: "string \<Rightarrow> string"
  word_char :: "char \<Rightarrow> bool"

definition get_uri :: "env \<Rightarrow> string \<Rightarrow> string" where
  "get_uri e p = ''file://'' @ pathname2url e (abspath e p)"

datatype loglevel = DEBUG | INFO | WARNING | ERROR

subsection \<open>Session state\<close>

record LangServerId =
  command :: string
  port :: "int option"
  project_root :: string

text \<open>What \<open>_completion_infos\<close> keeps per request: the request's data and the tab.\<close>

record completion_info =
  info_cursor_pos :: string
  info_other :: "(string \<times> string) list"
  info_tab :: nat

record completion =
  display_text :: string
  replace_start :: string
  replace_end :: string
  replace_text :: string
  filter_text :: string
  documentation_text :: string

record AutoCompletionResponse =
  resp_cursor_pos :: string
  resp_other :: "(string \<times> string) list"
  resp_completions :: "completion list"

text \<open>
  A \<open>LangServer\<close> object. \<open>self_ref\<close> is the identity of the object (what \<open>is\<close> compares);
  \<open>version_counter\<close> is the next value of \<open>itertools.count()\<close>; \<open>ls_log\<close> collects the
  records written to the session's logger; \<open>process_killed\<close> records \<open>self._process.kill()\<close>.
\<close>

record LangServer =
  self_ref :: nat
  ls_id :: LangServerId
  lsp_client :: Client
  completion_infos :: "nat \<rightharpoonup> completion_info"
  version_counter :: int
  ls_log :: "(loglevel \<times> string) list"
  tabs_opened :: "nat list"
  is_shutting_down_cleanly :: bool
  process_killed :: bool

text \<open>
  The state shared by all sessions: the module-level dictionary \<open>langservers\<close> (key to
  session object) and the virtual events generated on tabs.
\<close>

record world =
  langservers :: "LangServerId \<rightharpoonup> nat"
  tab_events :: "(nat \<times> AutoCompletionResponse) list"

definition LangServer_init :: "nat \<Rightarrow> LangServerId \<Rightarrow> Client \<Rightarrow> LangServer" where
  "LangServer_init ref langserver_id client =
     \<lparr>self_ref = ref, ls_id = langserver_id, lsp_client = client,
      completion_infos = Map.empty, version_counter = 0, ls_log = [],
      tabs_opened = [], is_shutting_down_cleanly = False, process_killed = False\<rparr>"

definition log_to :: "loglevel \<Rightarrow> string \<Rightarrow> LangServer \<Rightarrow> LangServer" where
  "log_to lvl msg ls = ls\<lparr>ls_log := ls_log ls @ [(lvl, msg)]\<rparr>"

subsection \<open>Registry membership\<close>

definition is_in_langservers :: "LangServer \<Rightarrow> world \<Rightarrow> bool" where
  "is_in_langservers ls w = (langservers w (ls_id ls) = Some (self_ref ls))"

definition get_removed_from_langservers :: "LangServer \<Rightarrow> world \<Rightarrow> LangServer \<times> world" where
  "get_removed_from_langservers ls w =
     (if is_in_langservers ls w
      then (log_to DEBUG ''getting removed from langservers'' ls,
            w\<lparr>langservers := (langservers w)(ls_id ls := None)\<rparr>)
      else (ls, w))"

subsection \<open>Handling protocol events\<close>

definition send_tab_opened_message :: "env \<Rightarrow> nat \<Rightarrow> LangServer \<Rightarrow> LangServer" where
  "send_tab_opened_message e tab ls =
     ls\<lparr>lsp_client :=
          did_open \<lparr>uri = get_uri e (path (tabs e tab)),
                    languageId = langserver_language_id (tabs e tab),
                    doc_text = textwidget_get_all (tabs e tab),
                    version = 0\<rparr>
            (lsp_client ls)\<rparr>"

text \<open>
  \<open>re.fullmatch(r'.*?(\w*)', s)\<close>: the lazy \<open>.*?\<close> is tried with 0, 1, 2, ... characters
  (none of them a newline), and for each the greedy \<open>\w*\<close> must reach the end of \<open>s\<close>.
  The result is group 1 of the first success, or \<open>None\<close> when there is no match.
\<close>

fun fullmatch_group1 :: "(char \<Rightarrow> bool) \<Rightarrow> string \<Rightarrow> string option" where
  "fullmatch_group1 w [] = Some []"
| "fullmatch_group1 w (c # cs) =
     (if list_all w (c # cs) then Some (c # cs)
      else if c = CHR 0x0A then None
      else fullmatch_group1 w cs)"

definition make_completion ::
  "FileTab \<Rightarrow> string \<Rightarrow> nat \<Rightarrow> CompletionItem \<Rightarrow> completion" where
  "make_completion tab cursor prefix_len item =
     \<lparr>display_text = label item,
      replace_start = textwidget_index_minus_chars tab cursor prefix_len,
      replace_end = cursor,
      replace_text = py_or (insertText item) (label item),
      filter_text =
        drop prefix_len (py_or (filterText item) (py_or (insertText item) (label item))),
      documentation_text = get_completion_item_doc item\<rparr>"

definition loglevel_dict :: "MessageType \<Rightarrow> loglevel" where
  "loglevel_dict t =
     (case t of MT_LOG \<Rightarrow> DEBUG | MT_INFO \<Rightarrow> INFO | MT_WARNING \<Rightarrow> WARNING | MT_ERROR \<Rightarrow> ERROR)"

text \<open>
  \<open>_handle_lsp_event\<close> returns the exception it raised, if any, together with the state as
  the statements executed before the \<open>raise\<close> left it.
\<close>

fun handle_lsp_event ::
  "env \<Rightarrow> lsp_event \<Rightarrow> LangServer \<times> world \<Rightarrow> exn option \<times> LangServer \<times> world" where
  "handle_lsp_event e (Initialized capabilities) (ls, w) =
     (None,
      foldl (\<lambda>s tab. send_tab_opened_message e tab s)
        (log_to INFO ''langserver initialized, capabilities:'' ls) (tabs_opened ls),
      w)"
| "handle_lsp_event e Shutdown (ls, w) =
     (let ls1 = log_to DEBUG ''langserver sent Shutdown event'' ls;
          ls2 = ls1\<lparr>lsp_client := exit_client (lsp_client ls1)\<rparr>;
          (ls3, w3) = get_removed_from_langservers ls2 w
      in (None, ls3, w3))"
| "handle_lsp_event e (Completion message_id items) (ls, w) =
     (case completion_infos ls message_id of
        None \<Rightarrow> (Some KeyError, ls, w)
      | Some info \<Rightarrow>
          (let ls1 = ls\<lparr>completion_infos := (completion_infos ls)(message_id := None)\<rparr>;
               tab = info_tab info;
               before_cursor =
                 textwidget_get_linestart_to (tabs e tab) (info_cursor_pos info)
           in case fullmatch_group1 (word_char e) before_cursor of
                None \<Rightarrow> (Some AttributeError, ls1, w)
              | Some group1 \<Rightarrow>
                  (let prefix_len = length group1;
                       cs = map (make_completion (tabs e tab) (info_cursor_pos info) prefix_len)
                              (sort_key (\<lambda>item. py_or (sortText item) (label item)) items)
                   in (None, ls1,
                       w\<lparr>tab_events := tab_events w @
                           [(tab, \<lparr>resp_cursor_pos = info_cursor_pos info,
                                   resp_other = info_other info,
                                   resp_completions = cs\<rparr>)]\<rparr>))))"
| "handle_lsp_event e PublishDiagnostics (ls, w) = (None, ls, w)"
| "handle_lsp_event e (LogMessage t message) (ls, w) =
     (None, log_to (loglevel_dict t) ''message from langserver:'' ls, w)"
| "handle_lsp_event e (OtherEvent kind) (ls, w) = (Some NotImplementedError, ls, w)"

text \<open>
  The loop of \<open>_run_stuff_once\<close> over the received events: an exception of the handler is
  caught, written to the log by \<open>log.exception\<close> (level \<open>ERROR\<close>), and the loop goes on.
\<close>

fun dispatch_events :: "env \<Rightarrow> lsp_event list \<Rightarrow> LangServer \<times> world \<Rightarrow> LangServer \<times> world" where
  "dispatch_events e [] (ls, w) = (ls, w)"
| "dispatch_events e (ev # evs) (ls, w) =
     (case handle_lsp_event e ev (ls, w) of
        (None, ls', w') \<Rightarrow> dispatch_events e evs (ls', w')
      | (Some ex, ls', w') \<Rightarrow>
          dispatch_events e evs (log_to ERROR ''error while handling langserver event'' ls', w'))"

subsection \<open>The polling step\<close>

text \<open>
  \<open>_ensure_langserver_process_quits_soon\<close>. The answers of the operating system are
  arguments: \<open>poll_result\<close> is what \<open>self._process.poll()\<close> returns and \<open>wait_result\<close> what
  \<open>self._process.wait()\<close> returns after a kill. The result says whether the method
  scheduled itself again.
\<close>

definition ensure_langserver_process_quits_soon ::
  "int option \<Rightarrow> int \<Rightarrow> LangServer \<times> world \<Rightarrow> bool \<times> LangServer \<times> world" where
  "ensure_langserver_process_quits_soon poll_result wait_result lw =
     (case lw of (ls, w) \<Rightarrow>
        if poll_result = None \<and> state (lsp_client ls) = EXITED
        then (True, log_to DEBUG ''langserver process should stop soon'' ls, w)
        else
          (let ls1 = (if poll_result = None
                      then (log_to WARNING ''killing langserver process'' ls)\<lparr>process_killed := True\<rparr>
                      else ls);
               ls2 = (if is_shutting_down_cleanly ls1
                      then log_to INFO ''langserver process terminated'' ls1
                      else log_to ERROR ''langserver process terminated unexpectedly'' ls1);
               (ls3, w3) = get_removed_from_langservers ls2 w
           in (False, ls3, w3)))"

text \<open>
  \<open>_run_stuff_once\<close>, after the client's outgoing bytes were written: \<open>received_bytes\<close> is
  what \<open>self._io.read()\<close> returned and \<open>recv_result\<close> what \<open>self._lsp_client.recv\<close> makes of
  the bytes (events, or an exception). The boolean is the return value: run again or not.
\<close>

definition run_stuff_once ::
  "env \<Rightarrow> bytes option \<Rightarrow> exn + lsp_event list \<Rightarrow> int option \<Rightarrow> int \<Rightarrow>
   LangServer \<times> world \<Rightarrow> bool \<times> LangServer \<times> world" where
  "run_stuff_once e received_bytes recv_result poll_result wait_result lw =
     (case received_bytes of
        None \<Rightarrow> (True, lw)
      | Some b \<Rightarrow>
          if b = []
          then (False, snd (ensure_langserver_process_quits_soon poll_result wait_result lw))
          else
            (let ls1 = log_to DEBUG ''got %d bytes of data'' (fst lw);
                 (lsp_events, ls2) =
                    (case recv_result of
                       Inl ex \<Rightarrow> ([], log_to ERROR ''error while receiving lsp events'' ls1)
                     | Inr evs \<Rightarrow> (evs, ls1))
             in (True, dispatch_events e lsp_events (ls2, snd lw))))"

subsection \<open>Calls from the editor\<close>

definition open_tab :: "env \<Rightarrow> nat \<Rightarrow> LangServer \<Rightarrow> LangServer" where
  "open_tab e tab ls =
     (let ls1 = log_to DEBUG ''tab opened'' ls;
          ls2 = ls1\<lparr>tabs_opened := tabs_opened ls1 @ [tab]\<rparr>
      in if state (lsp_client ls2) = NORMAL then send_tab_opened_message e tab ls2 else ls2)"

text \<open>\<open>list.remove\<close> raises \<open>ValueError\<close> when the element is absent.\<close>

definition close_tab :: "nat \<Rightarrow> LangServer \<times> world \<Rightarrow> exn option \<times> LangServer \<times> world" where
  "close_tab tab lw =
     (case lw of (ls, w) \<Rightarrow>
        if \<not> is_in_langservers ls w
        then (None, log_to DEBUG ''a tab was closed, but langserver process is no longer running'' ls, w)
        else
          (let ls1 = log_to DEBUG ''tab closed'' ls
           in if \<not> List.member (tabs_opened ls1) tab then (Some ValueError, ls1, w)
              else
                (let ls2 = ls1\<lparr>tabs_opened := remove1 tab (tabs_opened ls1)\<rparr>
                 in if tabs_opened ls2 \<noteq> [] then (None, ls2, w)
                    else
                      (let ls3 = (log_to INFO ''no more open tabs, shutting down'' ls2)
                                   \<lparr>is_shutting_down_cleanly := True\<rparr>;
                           (ls4, w4) = get_removed_from_langservers ls3 w
                       in if state (lsp_client ls4) = NORMAL
                          then (None, ls4\<lparr>lsp_client := shutdown (lsp_client ls4)\<rparr>, w4)
                          else (None, ls4\<lparr>process_killed := True\<rparr>, w4)))))"

text \<open>
  \<open>request_completions\<close>: \<open>tab\<close> is \<open>event.widget\<close>; \<open>cursor\<close> and \<open>other\<close> are the entries of
  \<open>event.data_json()\<close>.
\<close>

definition request_completions ::
  "env \<Rightarrow> nat \<Rightarrow> string \<Rightarrow> (string \<times> string) list \<Rightarrow> LangServer \<Rightarrow> exn option \<times> LangServer" where
  "request_completions e tab cursor other ls =
     (if state (lsp_client ls) \<noteq> NORMAL
      then (None, log_to WARNING ''autocompletions requested but langserver state == %r'' ls)
      else
        (case position_tk2lsp cursor True of
           Inl ex \<Rightarrow> (Some ex, ls)
         | Inr pos \<Rightarrow>
             (let (lsp_id, c) = completions (get_uri e (path (tabs e tab))) pos (lsp_client ls);
                  ls1 = ls\<lparr>lsp_client := c\<rparr>
              in if completion_infos ls1 lsp_id \<noteq> None then (Some AssertionError, ls1)
                 else (None,
                       ls1\<lparr>completion_infos := (completion_infos ls1)(lsp_id \<mapsto>
                            \<lparr>info_cursor_pos = cursor, info_other = other, info_tab = tab\<rparr>)\<rparr>))))"

text \<open>One entry of the \<open><<ContentChanged>>\<close> event data.\<close>

record change_info =
  change_start :: string
  change_end :: string
  change_new_text :: string

text \<open>The list comprehension building \<open>content_changes\<close>; it stops at the first exception.\<close>

fun content_changes :: "change_info list \<Rightarrow> exn + ContentChange list" where
  "content_changes [] = Inr []"
| "content_changes (info # infos) =
     (case position_tk2lsp (change_start info) False of
        Inl ex \<Rightarrow> Inl ex
      | Inr s \<Rightarrow>
          (case position_tk2lsp (change_end info) False of
             Inl ex \<Rightarrow> Inl ex
           | Inr t \<Rightarrow>
               (case content_changes infos of
                  Inl ex \<Rightarrow> Inl ex
                | Inr rest \<Rightarrow>
                    Inr (\<lparr>range_start = s, range_end = t, new_text = change_new_text info\<rparr> # rest))))"

text \<open>
  \<open>send_change_events\<close>: \<open>tab\<close> is \<open>event.widget.master\<close>. The keyword arguments of
  \<open>did_change\<close> are evaluated in order: \<open>next(self._version_counter)\<close> first, then the list
  of changes, so an exception in the list leaves the counter advanced.
\<close>

definition send_change_events ::
  "env \<Rightarrow> nat \<Rightarrow> change_info list \<Rightarrow> LangServer \<Rightarrow> exn option \<times> LangServer" where
  "send_change_events e tab infos ls =
     (if state (lsp_client ls) \<noteq> NORMAL
      then (None, log_to DEBUG ''not sending change events because langserver state == %r'' ls)
      else
        (let u = get_uri e (path (tabs e tab));
             v = version_counter ls;
             ls1 = ls\<lparr>version_counter := version_counter ls + 1\<rparr>
         in case content_changes infos of
              Inl ex \<Rightarrow> (Some ex, ls1)
            | Inr changes \<Rightarrow> (None, ls1\<lparr>lsp_client := did_change u v changes (lsp_client ls1)\<rparr>)))"

section \<open>Transports\<close>

subsection \<open>Names visible in lsp.py\<close>

text \<open>
  A name that is not local to a function is looked up among the names bound at module level
  and then among the builtins of Python 3; a name found in neither raises \<open>NameError\<close>.
\<close>

definition lsp_module_names :: "string list" where
  "lsp_module_names =
     [''__name__'', ''__doc__'', ''__package__'', ''__loader__'', ''__spec__'', ''__file__'',
      ''__cached__'', ''__builtins__'', ''__annotations__'', ''collections'', ''errno'', ''itertools'', ''json'', ''logging'', ''os'',
      ''platform'', ''pprint'', ''queue'', ''re'', ''select'', ''shlex'', ''signal'', ''socket'',
      ''subprocess'', ''threading'', ''time'', ''typing'', ''pathname2url'', ''fcntl'',
      ''get_tab_manager'', ''tabs'', ''utils'', ''lsp'', ''CHUNK_SIZE'', ''SubprocessStdIO'',
      ''error_says_socket_not_connected'', ''LocalhostSocketIO'', ''get_uri'',
      ''_PROJECT_ROOT_THINGS'', ''find_project_root'', ''get_completion_item_doc'',
      ''exit_code_string'', ''_position_tk2lsp'', ''LangServerId'', ''LangServer'',
      ''langservers'', ''get_lang_server'', ''on_new_tab'', ''setup'']"

definition python_builtin_names :: "string list" where
  "python_builtin_names =
     [''abs'', ''aiter'', ''all'', ''anext'', ''any'', ''ascii'', ''bin'', ''bool'', ''breakpoint'',
      ''bytearray'', ''bytes'', ''callable'', ''chr'', ''classmethod'', ''compile'', ''complex'',
      ''copyright'', ''credits'', ''delattr'', ''dict'', ''dir'', ''divmod'', ''enumerate'',
      ''eval'', ''exec'', ''exit'', ''filter'', ''float'', ''format'', ''frozenset'', ''getattr'',
      ''globals'', ''hasattr'', ''hash'', ''help'', ''hex'', ''id'', ''input'', ''int'',
      ''isinstance'', ''issubclass'', ''iter'', ''len'', ''license'', ''list'', ''locals'', ''map'',
      ''max'', ''memoryview'', ''min'', ''next'', ''object'', ''oct'', ''open'', ''ord'', ''pow'',
      ''print'', ''property'', ''quit'', ''range'', ''repr'', ''reversed'', ''round'', ''set'',
      ''setattr'', ''slice'', ''sorted'', ''staticmethod'', ''str'', ''sum'', ''super'', ''tuple'',
      ''type'', ''vars'', ''zip'', ''__import__'', ''__build_class__'', ''__debug__'',
      ''True'', ''False'', ''None'', ''Ellipsis'', ''NotImplemented'',
      ''BaseException'', ''BaseExceptionGroup'', ''Exception'', ''ExceptionGroup'',
      ''ArithmeticError'', ''AssertionError'', ''AttributeError'', ''BlockingIOError'',
      ''BrokenPipeError'', ''BufferError'', ''BytesWarning'', ''ChildProcessError'',
      ''ConnectionAbortedError'', ''ConnectionError'', ''ConnectionRefusedError'',
      ''ConnectionResetError'', ''DeprecationWarning'', ''EOFError'', ''EncodingWarning'',
      ''EnvironmentError'', ''FileExistsError'', ''FileNotFoundError'', ''FloatingPointError'',
      ''FutureWarning'', ''GeneratorExit'', ''IOError'', ''ImportError'', ''ImportWarning'',
      ''IndentationError'', ''IndexError'', ''InterruptedError'', ''IsADirectoryError'',
      ''KeyError'', ''KeyboardInterrupt'', ''LookupError'', ''MemoryError'',
      ''ModuleNotFoundError'', ''NameError'', ''NotADirectoryError'', ''NotImplementedError'',
      ''OSError'', ''OverflowError'', ''PendingDeprecationWarning'', ''PermissionError'',
      ''ProcessLookupError'', ''RecursionError'', ''ReferenceError'', ''ResourceWarning'',
      ''RuntimeError'', ''RuntimeWarning'', ''StopAsyncIteration'', ''StopIteration'',
      ''SyntaxError'', ''SyntaxWarning'', ''SystemError'', ''SystemExit'', ''TabError'',
      ''TimeoutError'', ''TypeError'', ''UnboundLocalError'', ''UnicodeDecodeError'',
      ''UnicodeEncodeError'', ''UnicodeError'', ''UnicodeTranslateError'', ''UnicodeWarning'',
      ''UserWarning'', ''ValueError'', ''Warning'', ''WindowsError'', ''ZeroDivisionError'']"

definition name_is_bound :: "string list \<Rightarrow> string \<Rightarrow> bool" where
  "name_is_bound local_names n =
     (List.member local_names n \<or> List.member lsp_module_names n
      \<or> List.member python_builtin_names n)"

subsection \<open>\<open>SubprocessStdIO\<close> without \<open>fcntl\<close>\<close>

text \<open>
  \<open>process_stdout\<close> holds the bytes the child process still delivers on its standard
  output (then end of file); \<open>read_queue\<close> is the queue between the reader thread and the
  foreground; \<open>worker_alive\<close> is \<open>self._worker_thread.is_alive()\<close>.
\<close>

record SubprocessStdIO =
  process_stdout :: bytes
  read_queue :: "bytes list"
  worker_alive :: bool

text \<open>
  The expression \<open>file.read(1)\<close> in \<open>_stdout_to_read_queue\<close>. The locals of the method are
  \<open>self\<close> and the variable the result is assigned to, so \<open>file\<close> is looked up as a global.
  Were it bound to the standard output of the child, the call would take one byte of it.
\<close>

definition file_read1 :: "bytes \<Rightarrow> exn + (bytes \<times> bytes)" where
  "file_read1 stream =
     (if name_is_bound [''self'', ''one_fucking_byte''] ''file''
      then Inr (take 1 stream, drop 1 stream)
      else Inl (NameError ''file''))"

text \<open>
  The body of the reader thread. The thread ends when the method returns or raises; the
  result holds the exception that ended it, if any.
\<close>

function stdout_to_read_queue :: "SubprocessStdIO \<Rightarrow> exn option \<times> SubprocessStdIO" where
  "stdout_to_read_queue io =
     (case file_read1 (process_stdout io) of
        Inl ex \<Rightarrow> (Some ex, io\<lparr>worker_alive := False\<rparr>)
      | Inr (one_byte, rest) \<Rightarrow>
          if one_byte = [] then (None, io\<lparr>worker_alive := False\<rparr>)
          else stdout_to_read_queue
                 (io\<lparr>process_stdout := rest, read_queue := read_queue io @ [one_byte]\<rparr>))"
  by pat_completeness auto
termination
  by (relation "measure (\<lambda>io. length (process_stdout io))")
     (auto simp: file_read1_def split: if_splits)

text \<open>
  \<open>SubprocessStdIO.read\<close>. With \<open>fcntl\<close> the result is what the non-blocking
  \<open>self._process.stdout.read(CHUNK_SIZE)\<close> returns, given as \<open>os_read\<close>. Without it the queue
  is emptied into \<open>buf\<close>. \<open>None\<close> is "no data", \<open>Some []\<close> is \<open>b''\<close>.
\<close>

definition SubprocessStdIO_read ::
  "bool \<Rightarrow> bytes option \<Rightarrow> SubprocessStdIO \<Rightarrow> bytes option \<times> SubprocessStdIO" where
  "SubprocessStdIO_read fcntl_is_None os_read io =
     (if fcntl_is_None then
        (let buf = concat (read_queue io);
             io' = io\<lparr>read_queue := []\<rparr>
         in if worker_alive io' \<and> buf = [] then (None, io') else (Some buf, io'))
      else (os_read, io))"

text \<open>The results of \<open>n\<close> successive \<open>read()\<close> calls on the queue-backed transport.\<close>

fun reads :: "nat \<Rightarrow> SubprocessStdIO \<Rightarrow> bytes option list" where
  "reads 0 io = []"
| "reads (Suc n) io =
     fst (SubprocessStdIO_read True None io) # reads n (snd (SubprocessStdIO_read True None io))"

subsection \<open>\<open>LocalhostSocketIO\<close>\<close>

text \<open>
  \<open>send_queue\<close> is the queue read by the sending thread, \<open>None\<close> being the entry that stops
  it; \<open>send_worker_alive\<close> is \<open>self._worker_thread.is_alive()\<close>.
\<close>

record LocalhostSocketIO =
  send_queue :: "bytes option list"
  send_worker_alive :: bool

definition LocalhostSocketIO_write :: "bytes \<Rightarrow> LocalhostSocketIO \<Rightarrow> LocalhostSocketIO" where
  "LocalhostSocketIO_write bytez s = s\<lparr>send_queue := send_queue s @ [Some bytez]\<rparr>"

text \<open>
  \<open>error_says_socket_not_connected\<close>: \<open>windows\<close> is \<open>platform.system() == 'Windows'\<close>, and
  \<open>ENOTCONN\<close> the constant of the \<open>errno\<close> module; an \<open>OSError\<close> carries \<open>errno\<close> and
  \<open>winerror\<close>.
\<close>

fun error_says_socket_not_connected :: "bool \<Rightarrow> int \<Rightarrow> exn \<Rightarrow> bool" where
  "error_says_socket_not_connected windows ENOTCONN (OSError err_no win_error) =
     (if windows then win_error = 10057 else err_no = ENOTCONN)"
| "error_says_socket_not_connected windows ENOTCONN _ = False"

text \<open>
  \<open>LocalhostSocketIO.read\<close>: \<open>can_read\<close> says whether \<open>select\<close> reported the socket
  readable, \<open>recv_result\<close> is what \<open>self._sock.recv(CHUNK_SIZE)\<close> returns or raises.
\<close>

definition LocalhostSocketIO_read ::
  "bool \<Rightarrow> int \<Rightarrow> bool \<Rightarrow> exn + bytes \<Rightarrow> LocalhostSocketIO \<Rightarrow>
   (exn + bytes option) \<times> LocalhostSocketIO" where
  "LocalhostSocketIO_read windows ENOTCONN can_read recv_result s =
     (if \<not> can_read then (Inr None, s)
      else
        (case recv_result of
           Inl ex \<Rightarrow>
             if error_says_socket_not_connected windows ENOTCONN ex then (Inr None, s)
             else (Inl ex, s)
         | Inr result \<Rightarrow>
             (Inr (Some result),
              if result = [] \<and> send_worker_alive s
              then s\<lparr>send_queue := send_queue s @ [None]\<rparr>
              else s)))"

section \<open>Running commands: the executor of no_terminal.py\<close>

text \<open>\<open>str(n)\<close> for an integer.\<close>

fun str_nat :: "nat \<Rightarrow> string" where
  "str_nat n =
     (if n < 10 then [char_of (48 + n)]
      else str_nat (n div 10) @ [char_of (48 + n mod 10)])"

declare str_nat.simps [simp del]

definition str_int :: "int \<Rightarrow> string" where
  "str_int i = (if i < 0 then CHR ''-'' # str_nat (nat (- i)) else str_nat (nat i))"

text \<open>
  The calls the executor makes on the text widget, the link manager and the tab manager,
  in the order it makes them.
\<close>

datatype gui_op =
    AfterCancel string
  | Insert string "string list"
  | AddLinks nat
  | YviewMoveto
  | DeleteScrollback
  | EventGenerate string

definition OUTPUT_TAGS :: "string \<rightharpoonup> string" where
  "OUTPUT_TAGS =
     map_of [(''info'', ''Token.Keyword''), (''output'', ''Token.Text''),
             (''error'', ''Token.Name.Exception'')]"

text \<open>
  \<open>_thread_target\<close>: the items the thread puts on \<open>self._queue\<close>, in order. \<open>run\<close> is either
  the text of the \<open>OSError\<close> that \<open>Popen\<close> raised, or the decoded chunks the process wrote
  and its exit status.
\<close>

definition thread_target :: "string \<Rightarrow> string + (string list \<times> int) \<Rightarrow> (string \<times> string) list" where
  "thread_target cmd run =
     (''info'', cmd @ [CHR 0x0A]) #
     (case run of
        Inl err \<Rightarrow> [(''error'', err @ [CHR 0x0A])]
      | Inr (chunks, status) \<Rightarrow>
          map (\<lambda>t. (''output'', t)) chunks @
          [if status = 0 then (''info'', ''The process completed successfully.'')
           else (''error'', ''The process failed with status '' @ str_int status @ ''.''),
           (''end'', [])])"

text \<open>
  \<open>_handle_queued_item\<close>. \<open>at_end\<close> answers \<open>self._textwidget.yview()[1] == 1.0\<close> from the
  calls made so far.
\<close>

definition handle_queued_item ::
  "(gui_op list \<Rightarrow> bool) \<Rightarrow> string \<Rightarrow> string \<Rightarrow> gui_op list \<Rightarrow> exn + gui_op list" where
  "handle_queued_item at_end message_type txt g =
     (if message_type = ''end'' then
        (if txt \<noteq> [] then Inl AssertionError
         else Inr (g @ [EventGenerate ''<<FileSystemChanged>>'', DeleteScrollback]))
      else
        (case OUTPUT_TAGS message_type of
           None \<Rightarrow> Inl KeyError
         | Some tag \<Rightarrow>
             Inr (g @ [Insert txt [tag, ''uneditable''], AddLinks (count_list txt (CHR 0x0A))]
                    @ (if at_end g then [YviewMoveto] else [])
                    @ [DeleteScrollback])))"

record Executor =
  timeout_id :: "string option"
  has_shell_process :: bool
  thread_alive :: "bool option"
  gui :: "gui_op list"

text \<open>
  The loop "consume queue until the thread stops" of \<open>stop\<close>. \<open>pending\<close> lists what the
  thread delivers through the queue from now on; when it is used up the blocking \<open>get\<close>
  never returns, which is the result \<open>None\<close>.
\<close>

fun consume_queue ::
  "(gui_op list \<Rightarrow> bool) \<Rightarrow> string \<Rightarrow> (string \<times> string) list \<Rightarrow> gui_op list \<Rightarrow>
   (exn + gui_op list) option" where
  "consume_queue at_end kill_message [] g = None"
| "consume_queue at_end kill_message ((message_type, txt) # pending) g =
     (case (if (message_type, txt) \<noteq> (''error'', kill_message)
            then handle_queued_item at_end message_type txt g else Inr g) of
        Inl ex \<Rightarrow> Some (Inl ex)
      | Inr g' \<Rightarrow>
          if message_type = ''end'' then Some (Inr g')
          else consume_queue at_end kill_message pending g')"

text \<open>
  \<open>Executor.stop\<close>. \<open>win32\<close> is \<open>sys.platform == "win32"\<close>; \<open>kill_raised\<close> says that the
  \<open>try\<close> block (stopping and killing the shell and its children) raised
  \<open>psutil.NoSuchProcess\<close> or \<open>ProcessLookupError\<close>. \<open>signal.SIGKILL\<close> is 9.
\<close>

definition stop ::
  "bool \<Rightarrow> (gui_op list \<Rightarrow> bool) \<Rightarrow> bool \<Rightarrow> bool \<Rightarrow> (string \<times> string) list \<Rightarrow> Executor \<Rightarrow>
   (exn + Executor) option" where
  "stop win32 at_end quitting kill_raised pending ex =
     (let ex1 = (case timeout_id ex of
                   None \<Rightarrow> ex
                 | Some t \<Rightarrow> ex\<lparr>timeout_id := None, gui := gui ex @ [AfterCancel t]\<rparr>);
          finish = (\<lambda>x. if quitting then x
                        else x\<lparr>gui := gui x @ [EventGenerate ''<<FileSystemChanged>>'']\<rparr>)
      in if \<not> has_shell_process ex1 then Some (Inr ex1)
         else if kill_raised \<or> quitting then Some (Inr (finish ex1))
         else if thread_alive ex1 \<noteq> Some True then Some (Inl AssertionError)
         else
           (let kill_status = (if win32 then 1 else - 9)
            in case consume_queue at_end
                      (''The process failed with status '' @ str_int kill_status @ ''.'')
                      pending (gui ex1) of
                 None \<Rightarrow> None
               | Some (Inl e) \<Rightarrow> Some (Inl e)
               | Some (Inr g) \<Rightarrow>
                   (case handle_queued_item at_end ''error'' ''Killed.'' g of
                      Inl e \<Rightarrow> Some (Inl e)
                    | Inr g' \<Rightarrow>
                        Some (Inr (finish (ex1\<lparr>thread_alive := Some False, gui := g'\<rparr>))))))"

text \<open>The texts inserted into the output, in order.\<close>

fun inserted :: "gui_op list \<Rightarrow> string list" where
  "inserted [] = []"
| "inserted (Insert txt tags # g) = txt # inserted g"
| "inserted (_ # g) = inserted g"

text \<open>An item that carries text for the output: its type is a key of \<open>OUTPUT_TAGS\<close>.\<close>

definition is_output_item :: "string \<times> string \<Rightarrow> bool" where
  "is_output_item item =
     (fst item = ''info'' \<or> fst item = ''output'' \<or> fst item = ''error'')"

section \<open>Sequences of calls on a session\<close>

text \<open>
  Everything that touches a session runs on the one thread of the editor: the calls bound
  to the tab's events, the events dispatched by the polling step, and the protocol client
  changing the state it reports. An exception of a call is reported by the event loop and
  the session stays as the call left it.
\<close>

datatype session_call =
    OpenTab nat
  | CloseTab nat
  | RequestCompletions nat string "(string \<times> string) list"
  | SendChangeEvents nat "change_info list"
  | HandleEvent lsp_event
  | ClientStateBecomes ClientState

fun apply_call :: "env \<Rightarrow> session_call \<Rightarrow> LangServer \<times> world \<Rightarrow> LangServer \<times> world" where
  "apply_call e (OpenTab tab) (ls, w) = (open_tab e tab ls, w)"
| "apply_call e (CloseTab tab) (ls, w) = snd (close_tab tab (ls, w))"
| "apply_call e (RequestCompletions tab cursor other) (ls, w) =
     (snd (request_completions e tab cursor other ls), w)"
| "apply_call e (SendChangeEvents tab infos) (ls, w) = (snd (send_change_events e tab infos ls), w)"
| "apply_call e (HandleEvent ev) (ls, w) = snd (handle_lsp_event e ev (ls, w))"
| "apply_call e (ClientStateBecomes st) (ls, w) =
     (ls\<lparr>lsp_client := (lsp_client ls)\<lparr>state := st\<rparr>\<rparr>, w)"

fun run_calls :: "(env \<times> session_call) list \<Rightarrow> LangServer \<times> world \<Rightarrow> LangServer \<times> world" where
  "run_calls [] lw = lw"
| "run_calls ((e, c) # cs) lw = run_calls cs (apply_call e c lw)"

text \<open>The version numbers of the change and of the open notifications sent, in order.\<close>

fun change_versions :: "client_call list \<Rightarrow> int list" where
  "change_versions [] = []"
| "change_versions (DidChange u v changes # cs) = v # change_versions cs"
| "change_versions (_ # cs) = change_versions cs"

fun open_versions :: "client_call list \<Rightarrow> int list" where
  "open_versions [] = []"
| "open_versions (DidOpen item # cs) = version item # open_versions cs"
| "open_versions (_ # cs) = open_versions cs"

text \<open>
  The positions in the data of a \<open><<ContentChanged>>\<close> event are indices of the Tk text
  widget, \<open>line.column\<close>: every one of them is accepted by \<open>_position_tk2lsp\<close>.
\<close>

definition positions_ok :: "change_info list \<Rightarrow> bool" where
  "positions_ok infos = (case content_changes infos of Inl ex \<Rightarrow> False | Inr changes \<Rightarrow> True)"

fun call_positions_ok :: "env \<times> session_call \<Rightarrow> bool" where
  "call_positions_ok (e, SendChangeEvents tab infos) = positions_ok infos"
| "call_positions_ok _ = True"

section \<open>Concrete inputs\<close>

text \<open>\<open>\w\<close> on ASCII: letters, digits and the underscore.\<close>

definition ascii_word_char :: "char \<Rightarrow> bool" where
  "ascii_word_char c =
     ((CHR ''a'' \<le> c \<and> c \<le> CHR ''z'') \<or> (CHR ''A'' \<le> c \<and> c \<le> CHR ''Z'')
      \<or> isdigit c \<or> c = CHR ''_'')"

text \<open>
  Two tabs: tab 1 is \<open>/p/a.py\<close> with the text \<open>pri\<close> and tab 2 is \<open>/p/b.py\<close> with the text
  \<open>x = 1\<close>; the text before any position is the whole line, both files having one line.
\<close>

definition example_tab :: "nat \<Rightarrow> FileTab" where
  "example_tab n =
     \<lparr>path = (if n = 1 then ''/p/a.py'' else ''/p/b.py''),
      langserver_language_id = ''python'',
      textwidget_get_all = (if n = 1 then ''pri'' else ''x = 1''),
      textwidget_get_linestart_to = (\<lambda>pos. if n = 1 then ''pri'' else ''x = 1''),
      textwidget_index_minus_chars = (\<lambda>pos k. ''1.0'')\<rparr>"

definition example_env :: env where
  "example_env =
     \<lparr>tabs = example_tab, abspath = (\<lambda>p. p), pathname2url = (\<lambda>p. p),
      word_char = ascii_word_char\<rparr>"

definition example_id :: LangServerId where
  "example_id = \<lparr>command = ''pyls'', port = None, project_root = ''/p''\<rparr>"

definition example_client :: Client where
  "example_client = \<lparr>state = WAITING_FOR_INITIALIZED, calls = [], next_id = 0\<rparr>"

text \<open>Session object 1, registered under its key.\<close>

definition example_session :: LangServer where
  "example_session = LangServer_init 1 example_id example_client"

definition example_world :: world where
  "example_world = \<lparr>langservers = [example_id \<mapsto> 1], tab_events = []\<rparr>"

text \<open>The output widget scrolled to its end, whatever was done to it.\<close>

definition scrolled_to_end :: "gui_op list \<Rightarrow> bool" where
  "scrolled_to_end g = True"

definition example_executor :: Executor where
  "example_executor =
     \<lparr>timeout_id = Some ''after#1'', has_shell_process = True, thread_alive = Some True,
      gui = []\<rparr>"

text \<open>
  A session in state \<open>NORMAL\<close> with one pending completion request, number 0, made in tab 1
  at position \<open>1.3\<close>, and a candidate \<open>print\<close> of the server.
\<close>

definition example_info :: completion_info where
  "example_info = \<lparr>info_cursor_pos = ''1.3'', info_other = [], info_tab = 1\<rparr>"

definition example_requesting_session :: LangServer where
  "example_requesting_session =
     example_session\<lparr>lsp_client := \<lparr>state = NORMAL, calls = [], next_id = 1\<rparr>,
                     completion_infos := [0 \<mapsto> example_info]\<rparr>"

definition example_item :: CompletionItem where
  "example_item =
     \<lparr>label = ''print(value)'', sortText = None, filterText = None,
      insertText = Some ''print'', documentation = None\<rparr>"

text \<open>
  Three more candidates: one with a filter text, an insert text and a label that all
  differ; one with an empty filter text, no insert text and a sort key; and one whose label
  does not begin with what was typed.
\<close>

definition example_item_filter :: CompletionItem where
  "example_item_filter =
     \<lparr>label = ''PRINT'', sortText = None, filterText = Some ''printf'',
      insertText = Some ''print_x'', documentation = None\<rparr>"

definition example_item_label :: CompletionItem where
  "example_item_label =
     \<lparr>label = ''private'', sortText = Some ''0'', filterText = Some [],
      insertText = None, documentation = None\<rparr>"

definition example_item_my_print :: CompletionItem where
  "example_item_my_print =
     \<lparr>label = ''my_print'', sortText = None, filterText = None, insertText = None,
      documentation = None\<rparr>"

section \<open>Invariant of the version counter\<close>

text \<open>
  The counter equals the number of change notifications sent, these carry 0, 1, 2, ... and
  every open notification carries 0.
\<close>

definition versions_consistent :: "LangServer \<Rightarrow> bool" where
  "versions_consistent ls =
     (version_counter ls = int (length (change_versions (calls (lsp_client ls))))
      \<and> change_versions (calls (lsp_client ls))
          = map int [0 ..< length (change_versions (calls (lsp_client ls)))]
      \<and> list_all (\<lambda>v. v = 0) (open_versions (calls (lsp_client ls))))"

text \<open>
  A step that leaves the counter alone and only adds calls to those made so far, none of
  them a change notification and every open notification among them of version 0.
\<close>

definition quiet_step :: "LangServer \<Rightarrow> LangServer \<Rightarrow> bool" where
  "quiet_step ls ls' =
     (version_counter ls' = version_counter ls
      \<and> take (length (calls (lsp_client ls))) (calls (lsp_client ls')) = calls (lsp_client ls)
      \<and> change_versions (drop (length (calls (lsp_client ls))) (calls (lsp_client ls'))) = []
      \<and> list_all (\<lambda>v. v = 0)
            (open_versions (drop (length (calls (lsp_client ls))) (calls (lsp_client ls')))))"

text \<open>A sequence of calls: two tabs attached, the handshake, then a change in each tab.\<close>

definition example_calls :: "(env \<times> session_call) list" where
  "example_calls =
     [(example_env, OpenTab 1),
      (example_env, OpenTab 2),
      (example_env, ClientStateBecomes NORMAL),
      (example_env, HandleEvent (Initialized ''{}'')),
      (example_env, SendChangeEvents 2
         [\<lparr>change_start = ''1.5'', change_end = ''1.5'', change_new_text = ''0''\<rparr>]),
      (example_env, SendChangeEvents 1
         [\<lparr>change_start = ''1.0'', change_end = ''1.3'', change_new_text = ''print''\<rparr>])]"

section \<open>Properties of the free functions\<close>

lemma isspace_iff:
  "isspace c \<longleftrightarrow> (of_char c :: nat) \<in> {9, 10, 11, 12, 13, 28, 29, 30, 31, 32, 133, 160}"
  by (simp add: isspace_def)

lemma strip_core:
  assumes "list_all isspace pre" and "list_all isspace post"
    and "core = [] \<or> (\<not> isspace (hd core) \<and> \<not> isspace (last core))"
  shows "strip (pre @ core @ post) = core"
proof (cases "core = []")
  case True
  with assms(1,2) have "\<forall>x \<in> set (pre @ core @ post). isspace x"
    by (auto simp: list_all_iff)
  then have d: "dropWhile isspace (pre @ core @ post) = []"
    by (simp only: dropWhile_eq_Nil_conv)
  show ?thesis
    unfolding strip_def lstrip_def rstrip_def d using True by simp
next
  case False
  with assms(3) have ends: "\<not> isspace (hd core)" "\<not> isspace (last core)"
    by simp_all
  from False obtain c cs where c: "core = c # cs"
    by (cases core) auto
  have "dropWhile isspace (pre @ core @ post) = dropWhile isspace (core @ post)"
    by (rule dropWhile_append2) (use assms(1) in \<open>simp add: list_all_iff\<close>)
  also have "\<dots> = core @ post"
    using c ends(1) by simp
  finally have l: "lstrip (pre @ core @ post) = core @ post"
    by (simp add: lstrip_def)
  from False obtain b bs where b: "rev core = b # bs"
    by (cases "rev core") auto
  then have "b = last core"
    by (metis last_rev list.sel(1) rev_rev_ident hd_rev)
  with ends(2) have nb: "\<not> isspace b"
    by simp
  have "dropWhile isspace (rev post @ rev core) = dropWhile isspace (rev core)"
    by (rule dropWhile_append2) (use assms(2) in \<open>simp add: list_all_iff\<close>)
  also have "\<dots> = rev core"
    using b nb by simp
  finally have "rstrip (core @ post) = core"
    by (simp add: rstrip_def)
  with l show ?thesis
    by (simp add: strip_def)
qed

text \<open>Every label is whitespace, a core without whitespace at its ends, and whitespace.\<close>

lemma label_has_core:
  "\<exists>pre core post. s = pre @ core @ post \<and> list_all isspace pre \<and> list_all isspace post
      \<and> (core = [] \<or> (\<not> isspace (hd core) \<and> \<not> isspace (last core)))"
proof -
  let ?pre = "takeWhile isspace s"
  let ?rest = "dropWhile isspace s"
  let ?post = "rev (takeWhile isspace (rev ?rest))"
  let ?core = "rev (dropWhile isspace (rev ?rest))"
  have "rev ?rest = takeWhile isspace (rev ?rest) @ dropWhile isspace (rev ?rest)"
    by simp
  then have "rev (rev ?rest) = rev (takeWhile isspace (rev ?rest) @ dropWhile isspace (rev ?rest))"
    by (rule arg_cong)
  then have r: "?rest = ?core @ ?post"
    by (simp only: rev_rev_ident rev_append)
  have "s = ?pre @ ?rest"
    by simp
  with r have s: "s = ?pre @ ?core @ ?post"
    by simp
  have p1: "list_all isspace ?pre"
    by (simp add: list_all_iff) (meson set_takeWhileD)
  have p2: "list_all isspace ?post"
    by (simp add: list_all_iff) (meson set_takeWhileD)
  have p3: "?core = [] \<or> (\<not> isspace (hd ?core) \<and> \<not> isspace (last ?core))"
  proof (cases "?core = []")
    case True
    then show ?thesis by simp
  next
    case False
    then have ne: "dropWhile isspace (rev ?rest) \<noteq> []"
      by simp
    then have "\<not> isspace (hd (dropWhile isspace (rev ?rest)))"
      by (rule hd_dropWhile)
    then have la: "\<not> isspace (last ?core)"
      using ne by (simp add: last_rev)
    have "?rest \<noteq> []"
    proof
      assume a: "?rest = []"
      have "?core = []"
        unfolding a by simp
      with False show False
        by simp
    qed
    then have "\<not> isspace (hd ?rest)"
      by (rule hd_dropWhile)
    moreover have "hd ?rest = hd ?core"
      using False r by (metis hd_append2)
    ultimately show ?thesis
      using la by simp
  qed
  from s p1 p2 p3 show ?thesis
    by blast
qed

text \<open>
  C9. The label of a candidate is whitespace, a core with no whitespace at either end,
  and whitespace again (whitespace as \<open>str.strip\<close> has it, for code points below 256); the
  core is the whitespace-stripped label. For a candidate whose documentation is a non-empty
  string, the produced documentation is the documentation itself exactly when it starts
  with the core, and otherwise the core, an empty line and the documentation. Label
  \<open>foo(x)\<close> with documentation \<open>foo(x) does a thing\<close> gives the documentation back; with
  documentation \<open>does a thing\<close> it gives \<open>foo(x)\<close>, two newlines, \<open>does a thing\<close>; and so
  do these labels with whitespace around them.
\<close>

theorem get_completion_item_doc_synthesis:
  fixes item :: CompletionItem
  defines "ws \<equiv> {9, 10, 11, 12, 13, 28, 29, 30, 31, 32, 133, 160 :: nat}"
  assumes "documentation item = Some d" and "d \<noteq> []"
    and "label item = pre @ core @ post"
    and "list_all (\<lambda>c. of_char c \<in> ws) pre" and "list_all (\<lambda>c. of_char c \<in> ws) post"
    and "core = [] \<or> (of_char (hd core) \<notin> ws \<and> of_char (last core) \<notin> ws)"
  shows "get_completion_item_doc item =
           (if take (length core) d = core then d else core @ [CHR 0x0A, CHR 0x0A] @ d)
         \<and> (get_completion_item_doc item = d \<longleftrightarrow> take (length core) d = core)"
proof -
  have "strip (label item) = core"
    using assms(4-7) unfolding ws_def
    by (simp add: strip_core isspace_iff [abs_def])
  then have eq: "get_completion_item_doc item =
           (if take (length core) d = core then d else core @ [CHR 0x0A, CHR 0x0A] @ d)"
    using assms(2,3) by (simp add: get_completion_item_doc_def startswith_def)
  have "core @ [CHR 0x0A, CHR 0x0A] @ d \<noteq> d"
  proof
    assume "core @ [CHR 0x0A, CHR 0x0A] @ d = d"
    then have "length (core @ [CHR 0x0A, CHR 0x0A] @ d) = length d" by simp
    then show False by simp
  qed
  with eq show ?thesis by simp
qed

theorem get_completion_item_doc_examples:
  "get_completion_item_doc
       \<lparr>label = ''foo(x)'', sortText = None, filterText = None, insertText = None,
        documentation = Some ''foo(x) does a thing''\<rparr> = ''foo(x) does a thing''
   \<and> get_completion_item_doc
       \<lparr>label = ''foo(x)'', sortText = None, filterText = None, insertText = None,
        documentation = Some ''does a thing''\<rparr>
       = ''foo(x)'' @ [CHR 0x0A, CHR 0x0A] @ ''does a thing''
   \<and> get_completion_item_doc
       \<lparr>label = [CHR 0x20, CHR 0x09] @ ''foo(x)'' @ [CHR 0x0A, CHR 0xA0, CHR 0x1F],
        sortText = None, filterText = None, insertText = None,
        documentation = Some ''foo(x) does a thing''\<rparr> = ''foo(x) does a thing''
   \<and> get_completion_item_doc
       \<lparr>label = [CHR 0x20, CHR 0x09] @ ''foo(x)'' @ [CHR 0x0A, CHR 0xA0, CHR 0x1F],
        sortText = None, filterText = None, insertText = None,
        documentation = Some ''does a thing''\<rparr>
       = ''foo(x)'' @ [CHR 0x0A, CHR 0x0A] @ ''does a thing''
   \<and> get_completion_item_doc
       \<lparr>label = ''foo (x)'', sortText = None, filterText = None, insertText = None,
        documentation = Some ''foo(x) does a thing''\<rparr>
       = ''foo (x)'' @ [CHR 0x0A, CHR 0x0A] @ ''foo(x) does a thing''"
  using get_completion_item_doc_synthesis
          [of "\<lparr>label = ''foo(x)'', sortText = None, filterText = None, insertText = None,
                documentation = Some ''foo(x) does a thing''\<rparr>" "''foo(x) does a thing''"
              "[]" "''foo(x)''" "[]"]
        get_completion_item_doc_synthesis
          [of "\<lparr>label = ''foo(x)'', sortText = None, filterText = None, insertText = None,
                documentation = Some ''does a thing''\<rparr>" "''does a thing''"
              "[]" "''foo(x)''" "[]"]
        get_completion_item_doc_synthesis
          [of "\<lparr>label = [CHR 0x20, CHR 0x09] @ ''foo(x)'' @ [CHR 0x0A, CHR 0xA0, CHR 0x1F],
                sortText = None, filterText = None, insertText = None,
                documentation = Some ''foo(x) does a thing''\<rparr>" "''foo(x) does a thing''"
              "[CHR 0x20, CHR 0x09]" "''foo(x)''" "[CHR 0x0A, CHR 0xA0, CHR 0x1F]"]
        get_completion_item_doc_synthesis
          [of "\<lparr>label = [CHR 0x20, CHR 0x09] @ ''foo(x)'' @ [CHR 0x0A, CHR 0xA0, CHR 0x1F],
                sortText = None, filterText = None, insertText = None,
                documentation = Some ''does a thing''\<rparr>" "''does a thing''"
              "[CHR 0x20, CHR 0x09]" "''foo(x)''" "[CHR 0x0A, CHR 0xA0, CHR 0x1F]"]
        get_completion_item_doc_synthesis
          [of "\<lparr>label = ''foo (x)'', sortText = None, filterText = None, insertText = None,
                documentation = Some ''foo(x) does a thing''\<rparr>" "''foo(x) does a thing''"
              "[]" "''foo (x)''" "[]"]
  by simp

subsection \<open>Positions written in decimal are read back\<close>

lemma isdigit_char_of: "(k::nat) < 10 \<Longrightarrow> isdigit (char_of (48 + k))"
  by (simp add: isdigit_def less_eq_char_def)

lemma digit_value_char_of: "(k::nat) < 10 \<Longrightarrow> digit_value (char_of (48 + k)) = k"
  by (simp add: digit_value_def)

lemma str_nat_digits: "str_nat n \<noteq> [] \<and> list_all isdigit (str_nat n)"
proof (induction n rule: str_nat.induct)
  case (1 n)
  show ?case
  proof (cases "n < 10")
    case True
    then show ?thesis
      by (simp add: str_nat.simps [of n] isdigit_char_of)
  next
    case False
    with "1" show ?thesis
      by (simp add: str_nat.simps [of n] isdigit_char_of)
  qed
qed

lemma decimal_value_snoc:
  "decimal_value (ds @ [d]) = 10 * decimal_value ds + digit_value d"
  by (simp add: decimal_value_def)

lemma decimal_value_str_nat: "decimal_value (str_nat n) = n"
proof (induction n rule: str_nat.induct)
  case (1 n)
  show ?case
  proof (cases "n < 10")
    case True
    then show ?thesis
      by (simp add: str_nat.simps [of n] decimal_value_def digit_value_char_of)
  next
    case False
    with "1" show ?thesis
      by (simp add: str_nat.simps [of n] decimal_value_snoc digit_value_char_of)
  qed
qed

lemma isdigit_not_int_isspace: "isdigit c \<Longrightarrow> \<not> int_isspace c"
  by (auto simp: isdigit_def int_isspace_def less_eq_char_def)

lemma isdigit_not_punct:
  "isdigit c \<Longrightarrow> c \<noteq> CHR ''.'' \<and> c \<noteq> CHR ''_'' \<and> c \<noteq> CHR ''-'' \<and> c \<noteq> CHR ''+''"
  by (auto simp: isdigit_def less_eq_char_def)

lemma int_strip_digits:
  assumes "ds \<noteq> []" and "list_all isdigit ds"
  shows "int_strip ds = ds"
proof -
  from assms obtain c cs where ds: "ds = c # cs" by (cases ds) auto
  with assms(2) have "\<not> int_isspace c" by (simp add: isdigit_not_int_isspace)
  with ds have l: "dropWhile int_isspace ds = ds" by simp
  from assms obtain b bs where r: "rev ds = b # bs" by (cases "rev ds") auto
  then have "b \<in> set ds" by (metis list.set_intros(1) set_rev)
  with assms(2) have "\<not> int_isspace b" by (simp add: list_all_iff isdigit_not_int_isspace)
  with r have "dropWhile int_isspace (rev ds) = rev ds" by simp
  with l show ?thesis by (simp add: int_strip_def)
qed

lemma split_no_sep: "sep \<notin> set s \<Longrightarrow> split sep s = [s]"
  by (induction s) auto

lemma split_at_sep: "sep \<notin> set a \<Longrightarrow> split sep (a @ sep # b) = a # split sep b"
  by (induction a) auto

lemma py_int_digits:
  assumes "ds \<noteq> []" and "list_all isdigit ds"
  shows "py_int ds = Inr (int (decimal_value ds))"
proof -
  from assms obtain c cs where ds: "ds = c # cs" by (cases ds) auto
  with assms(2) have c: "c \<noteq> CHR ''-''" "c \<noteq> CHR ''+''"
    using isdigit_not_punct [of c] by auto
  have "CHR ''_'' \<notin> set ds"
    using assms(2) isdigit_not_punct by (auto simp: list_all_iff)
  then have sp: "split CHR ''_'' ds = [ds]" by (rule split_no_sep)
  show ?thesis
    using assms c sp ds by (simp add: py_int_def int_strip_digits Let_def)
qed

lemma py_int_str_nat: "py_int (str_nat n) = Inr (int n)"
  using py_int_digits [of "str_nat n"] str_nat_digits [of n]
  by (simp add: decimal_value_str_nat)

lemma parse_tk_position_str:
  "parse_tk_position (str_nat l @ CHR ''.'' # str_nat c) = Inr (int l, int c)"
proof -
  have "CHR ''.'' \<notin> set (str_nat l)" "CHR ''.'' \<notin> set (str_nat c)"
    using str_nat_digits isdigit_not_punct by (auto simp: list_all_iff)
  then have "split CHR ''.'' (str_nat l @ CHR ''.'' # str_nat c) = [str_nat l, str_nat c]"
    by (simp add: split_at_sep split_no_sep)
  then show ?thesis
    by (simp add: parse_tk_position_def py_int_str_nat)
qed

text \<open>
  C2. For a Tk position with line \<open>l\<close> and column \<open>c\<close> the translation gives line \<open>l - 1\<close>
  and character \<open>c\<close>. With \<open>next_column=True\<close>, as \<open>request_completions\<close> calls it, the claim
  asks for character \<open>c + 1\<close>; the function increments the flag instead of the column, so
  the result is the same in both modes: the position \<open>3.5\<close> is translated to line 2,
  character 5, not 6.
\<close>

theorem position_tk2lsp_next_column:
  "position_tk2lsp (str_nat l @ ''.'' @ str_nat c) next_column
     = Inr \<lparr>line = int l - 1, character = int c\<rparr>
   \<and> position_tk2lsp ''3.5'' False = Inr \<lparr>line = 2, character = 5\<rparr>
   \<and> position_tk2lsp ''3.5'' True = Inr \<lparr>line = 2, character = 5\<rparr>
   \<and> position_tk2lsp ''3.5'' True \<noteq> Inr \<lparr>line = 2, character = 6\<rparr>"
proof -
  have "position_tk2lsp (str_nat l @ ''.'' @ str_nat c) next_column
     = Inr \<lparr>line = int l - 1, character = int c\<rparr>"
    by (simp add: position_tk2lsp_def parse_tk_position_str Let_def)
  moreover have "position_tk2lsp ''3.5'' False = Inr \<lparr>line = 2, character = 5\<rparr>"
    "position_tk2lsp ''3.5'' True = Inr \<lparr>line = 2, character = 5\<rparr>"
    by (simp_all add: position_tk2lsp_def parse_tk_position_def py_int_def int_strip_def
        int_isspace_def isdigit_def decimal_value_def digit_value_def)
  ultimately show ?thesis
    by simp
qed

section \<open>Properties of the transports\<close>

lemma file_not_bound: "\<not> name_is_bound [''self'', ''one_fucking_byte''] ''file''"
  by (simp add: name_is_bound_def lsp_module_names_def python_builtin_names_def)

text \<open>
  C3. The reader thread is meant to take one byte at a time from the standard output of
  the child and to put each on the read queue until a read gives nothing. The name \<open>file\<close>
  it reads from is bound nowhere, so the first iteration raises \<open>NameError\<close>: the thread
  ends, nothing was read and nothing was put on the queue; with the child still to write
  the byte 97, the queue stays empty and the next \<open>read()\<close> of the foreground returns \<open>b''\<close>.
\<close>

theorem stdout_to_read_queue_NameError:
  "stdout_to_read_queue io = (Some (NameError ''file''), io\<lparr>worker_alive := False\<rparr>)
   \<and> stdout_to_read_queue \<lparr>process_stdout = [97], read_queue = [], worker_alive = True\<rparr>
       = (Some (NameError ''file''),
          \<lparr>process_stdout = [97], read_queue = [], worker_alive = False\<rparr>)
   \<and> fst (SubprocessStdIO_read True None
            (snd (stdout_to_read_queue
               \<lparr>process_stdout = [97], read_queue = [], worker_alive = True\<rparr>))) = Some []"
  by (simp add: file_read1_def file_not_bound SubprocessStdIO_read_def)

lemma read_closed_again:
  assumes "SubprocessStdIO_read True r io = (Some [], io')"
  shows "SubprocessStdIO_read True r' io' = (Some [], io')"
  using assms by (auto simp: SubprocessStdIO_read_def Let_def split: if_splits)

lemma reads_closed:
  "SubprocessStdIO_read True None io = (Some [], io) \<Longrightarrow> reads n io = replicate n (Some [])"
  by (induction n) simp_all

text \<open>
  C4, as stated: after \<open>read()\<close> has returned empty bytes no later \<open>read()\<close> returns empty
  bytes again. On the queue-backed transport whose reader thread has ended and whose queue
  is empty, the first \<open>read()\<close> returns \<open>b''\<close> and so does the second.
\<close>

theorem read_reports_closure_twice:
  "fst (SubprocessStdIO_read True None
          \<lparr>process_stdout = [], read_queue = [], worker_alive = False\<rparr>) = Some []
   \<and> fst (SubprocessStdIO_read True None
            (snd (SubprocessStdIO_read True None
               \<lparr>process_stdout = [], read_queue = [], worker_alive = False\<rparr>))) = Some []"
  by (simp add: SubprocessStdIO_read_def)

text \<open>
  C4, amended. Once \<open>read()\<close> of the queue-backed subprocess transport has returned empty
  bytes, every later \<open>read()\<close> returns empty bytes again, never "no data"; \<open>read()\<close> of the
  socket transport returns empty bytes whenever the socket is readable and \<open>recv\<close> delivers
  nothing. Neither transport remembers that it reported the closure: it is the polling
  step that, given empty bytes, returns \<open>False\<close> and is not scheduled again.
\<close>

theorem read_after_closure:
  assumes "SubprocessStdIO_read True os_read io = (Some [], io')"
  shows "reads n io' = replicate n (Some [])
         \<and> fst (LocalhostSocketIO_read windows ENOTCONN True (Inr []) s) = Inr (Some [])
         \<and> fst (run_stuff_once e (Some []) recv_result poll_result wait_result lw) = False"
proof -
  have "SubprocessStdIO_read True None io' = (Some [], io')"
    using assms by (rule read_closed_again)
  then have "reads n io' = replicate n (Some [])"
    by (rule reads_closed)
  then show ?thesis
    by (simp add: LocalhostSocketIO_read_def run_stuff_once_def)
qed

theorem read_after_closure_witness:
  "SubprocessStdIO_read True None \<lparr>process_stdout = [], read_queue = [], worker_alive = False\<rparr>
     = (Some [], \<lparr>process_stdout = [], read_queue = [], worker_alive = False\<rparr>)
   \<and> reads 3 \<lparr>process_stdout = [], read_queue = [], worker_alive = False\<rparr>
       = [Some [], Some [], Some []]"
proof -
  have h: "SubprocessStdIO_read True None
             \<lparr>process_stdout = [], read_queue = [], worker_alive = False\<rparr>
           = (Some [], \<lparr>process_stdout = [], read_queue = [], worker_alive = False\<rparr>)"
    by (simp add: SubprocessStdIO_read_def)
  from read_after_closure [OF h, of 3] h show ?thesis
    by (simp add: numeral_3_eq_3)
qed

section \<open>Properties of the session\<close>

text \<open>
  C5. Removing a session from the registry deletes the entry of its key only if that entry
  is the session object itself; when another session object is registered under the key
  (or none), the registry is left as it was.
\<close>

theorem get_removed_from_langservers_guard:
  "langservers (snd (get_removed_from_langservers ls w)) =
     (if langservers w (ls_id ls) = Some (self_ref ls)
      then (langservers w)(ls_id ls := None) else langservers w)
   \<and> (langservers w (ls_id ls) = Some other \<and> other \<noteq> self_ref ls
        \<longrightarrow> snd (get_removed_from_langservers ls w) = w)
   \<and> (langservers (snd (get_removed_from_langservers ls w)) \<noteq> langservers w
        \<longrightarrow> langservers w (ls_id ls) = Some (self_ref ls))"
  by (auto simp: get_removed_from_langservers_def is_in_langservers_def)

theorem get_removed_from_langservers_guard_witness:
  "langservers example_world (ls_id (LangServer_init 2 example_id example_client)) = Some 1
   \<and> (1::nat) \<noteq> self_ref (LangServer_init 2 example_id example_client)
   \<and> snd (get_removed_from_langservers (LangServer_init 2 example_id example_client)
            example_world) = example_world
   \<and> langservers (snd (get_removed_from_langservers example_session example_world))
       \<noteq> langservers example_world
   \<and> langservers example_world (ls_id example_session) = Some (self_ref example_session)
   \<and> langservers (snd (get_removed_from_langservers example_session example_world)) example_id
       = None"
proof -
  have stale: "langservers example_world (ls_id (LangServer_init 2 example_id example_client))
                 = Some 1"
    "(1::nat) \<noteq> self_ref (LangServer_init 2 example_id example_client)"
    by (simp_all add: LangServer_init_def example_world_def)
  have current: "langservers example_world (ls_id example_session)
                   = Some (self_ref example_session)"
    by (simp add: LangServer_init_def example_world_def example_session_def)
  from get_removed_from_langservers_guard
         [of "LangServer_init 2 example_id example_client" example_world 1] stale
  have unchanged: "snd (get_removed_from_langservers
                     (LangServer_init 2 example_id example_client) example_world) = example_world"
    by blast
  from get_removed_from_langservers_guard [of example_session example_world 1] current
  have removed: "langservers (snd (get_removed_from_langservers example_session example_world))
                   = (langservers example_world)(ls_id example_session := None)"
    by simp
  then have gone: "langservers (snd (get_removed_from_langservers example_session
                      example_world)) example_id = None"
    by (simp add: example_session_def LangServer_init_def)
  have "langservers example_world example_id = Some 1"
    by (simp add: example_world_def)
  with gone have "langservers (snd (get_removed_from_langservers example_session example_world))
                    \<noteq> langservers example_world"
    by (metis option.distinct(1))
  with stale current unchanged gone show ?thesis
    by simp
qed

lemma send_tab_opened_messages:
  "foldl (\<lambda>s tab. send_tab_opened_message e tab s) ls ts =
     ls\<lparr>lsp_client := (lsp_client ls)\<lparr>calls := calls (lsp_client ls) @
          map (\<lambda>tab. DidOpen \<lparr>uri = get_uri e (path (tabs e tab)),
                              languageId = langserver_language_id (tabs e tab),
                              doc_text = textwidget_get_all (tabs e tab),
                              version = 0\<rparr>) ts\<rparr>\<rparr>"
proof (induction ts arbitrary: ls)
  case Nil
  show ?case by simp
next
  case (Cons t ts)
  have "foldl (\<lambda>s tab. send_tab_opened_message e tab s) ls (t # ts) =
        foldl (\<lambda>s tab. send_tab_opened_message e tab s) (send_tab_opened_message e t ls) ts"
    by simp
  also note Cons.IH
  finally show ?case
    by (simp add: send_tab_opened_message_def did_open_def)
qed

lemma open_tabs_not_normal:
  "state (lsp_client ls) \<noteq> NORMAL \<Longrightarrow>
   tabs_opened (foldl (\<lambda>s d. open_tab e d s) ls docs) = tabs_opened ls @ docs
   \<and> lsp_client (foldl (\<lambda>s d. open_tab e d s) ls docs) = lsp_client ls"
proof (induction docs arbitrary: ls)
  case Nil
  show ?case by simp
next
  case (Cons d docs)
  have "state (lsp_client (open_tab e d ls)) \<noteq> NORMAL"
    using Cons.prems by (simp add: open_tab_def log_to_def Let_def)
  from Cons.IH [OF this] show ?case
    using Cons.prems by (simp add: open_tab_def log_to_def Let_def)
qed

lemma run_calls_append: "run_calls (a @ b) lw = run_calls b (run_calls a lw)"
proof (induction a arbitrary: lw)
  case Nil
  show ?case by simp
next
  case (Cons x a)
  obtain e c where "x = (e, c)" by (cases x)
  with Cons show ?case by simp
qed

lemma run_calls_open_tabs:
  "run_calls (map (\<lambda>d. (e, OpenTab d)) docs) (ls, w) = (foldl (\<lambda>s d. open_tab e d s) ls docs, w)"
  by (induction docs arbitrary: ls) simp_all

text \<open>
  C6. Whenever a session handles the initialization-complete event, it sends exactly one
  open notification per document in \<open>tabs_opened\<close>, in the order of that list, each with
  the URI, the language identifier and the whole text the document has at that moment, and
  version 0. For documents \<open>docs\<close> attached, in that order, to a new session whose client
  is not yet in state \<open>NORMAL\<close>, nothing is sent while they are attached, and after the
  client has reached \<open>NORMAL\<close> and the event is handled, the notifications sent are those
  of \<open>docs\<close>, in attachment order.
\<close>

theorem initialized_replays_opens:
  assumes "state client \<noteq> NORMAL"
  shows "fst (handle_lsp_event e (Initialized capabilities) (ls, w)) = None
         \<and> calls (lsp_client (fst (snd (handle_lsp_event e (Initialized capabilities) (ls, w)))))
             = calls (lsp_client ls) @
               map (\<lambda>d. DidOpen \<lparr>uri = get_uri e (path (tabs e d)),
                                 languageId = langserver_language_id (tabs e d),
                                 doc_text = textwidget_get_all (tabs e d),
                                 version = 0\<rparr>) (tabs_opened ls)
         \<and> calls (lsp_client (fst (run_calls (map (\<lambda>d. (e0, OpenTab d)) docs)
               (LangServer_init ref lid client, w)))) = calls client
         \<and> calls (lsp_client (fst (run_calls
               (map (\<lambda>d. (e0, OpenTab d)) docs
                @ [(e1, ClientStateBecomes NORMAL), (e, HandleEvent (Initialized capabilities))])
               (LangServer_init ref lid client, w))))
             = calls client @
               map (\<lambda>d. DidOpen \<lparr>uri = get_uri e (path (tabs e d)),
                                 languageId = langserver_language_id (tabs e d),
                                 doc_text = textwidget_get_all (tabs e d),
                                 version = 0\<rparr>) docs"
proof -
  let ?attached = "foldl (\<lambda>s d. open_tab e0 d s) (LangServer_init ref lid client) docs"
  have "state (lsp_client (LangServer_init ref lid client)) \<noteq> NORMAL"
    using assms by (simp add: LangServer_init_def)
  from open_tabs_not_normal [OF this, of e0 docs]
  have t: "tabs_opened ?attached = docs" "lsp_client ?attached = client"
    by (simp_all add: LangServer_init_def)
  have h: "fst (handle_lsp_event e (Initialized capabilities) (s, w)) = None
         \<and> calls (lsp_client (fst (snd (handle_lsp_event e (Initialized capabilities) (s, w)))))
             = calls (lsp_client s) @
               map (\<lambda>d. DidOpen \<lparr>uri = get_uri e (path (tabs e d)),
                                 languageId = langserver_language_id (tabs e d),
                                 doc_text = textwidget_get_all (tabs e d),
                                 version = 0\<rparr>) (tabs_opened s)" for s
    by (simp add: send_tab_opened_messages log_to_def)
  have "run_calls
               (map (\<lambda>d. (e0, OpenTab d)) docs
                @ [(e1, ClientStateBecomes NORMAL), (e, HandleEvent (Initialized capabilities))])
               (LangServer_init ref lid client, w)
        = snd (handle_lsp_event e (Initialized capabilities)
                 (?attached\<lparr>lsp_client := (lsp_client ?attached)\<lparr>state := NORMAL\<rparr>\<rparr>, w))"
    by (simp only: run_calls_append run_calls_open_tabs run_calls.simps apply_call.simps)
  then show ?thesis
    using h [of ls] h [of "?attached\<lparr>lsp_client := (lsp_client ?attached)\<lparr>state := NORMAL\<rparr>\<rparr>"] t
    by (simp add: run_calls_open_tabs)
qed

theorem initialized_replays_opens_witness:
  "state example_client \<noteq> NORMAL
   \<and> calls (lsp_client (fst (run_calls
         (map (\<lambda>d. (example_env, OpenTab d)) [1, 2]
          @ [(example_env, ClientStateBecomes NORMAL),
             (example_env, HandleEvent (Initialized ''{}''))])
         (LangServer_init 1 example_id example_client, example_world))))
     = [DidOpen \<lparr>uri = ''file:///p/a.py'', languageId = ''python'', doc_text = ''pri'',
                 version = 0\<rparr>,
        DidOpen \<lparr>uri = ''file:///p/b.py'', languageId = ''python'', doc_text = ''x = 1'',
                 version = 0\<rparr>]"
proof -
  have h: "state example_client \<noteq> NORMAL"
    by (simp add: example_client_def)
  from initialized_replays_opens [OF h, of example_env "''{}''" example_session example_world
         example_env "[1, 2]" 1 example_id example_env]
  have "calls (lsp_client (fst (run_calls
         (map (\<lambda>d. (example_env, OpenTab d)) [1, 2]
          @ [(example_env, ClientStateBecomes NORMAL),
             (example_env, HandleEvent (Initialized ''{}''))])
         (LangServer_init 1 example_id example_client, example_world))))
     = calls example_client @
               map (\<lambda>d. DidOpen \<lparr>uri = get_uri example_env (path (tabs example_env d)),
                                 languageId = langserver_language_id (tabs example_env d),
                                 doc_text = textwidget_get_all (tabs example_env d),
                                 version = 0\<rparr>) [1, 2]"
    by blast
  then show ?thesis
    using h by (simp add: example_client_def example_env_def example_tab_def get_uri_def)
qed

lemma fullmatch_group1_trailing_run:
  "CHR 0x0A \<notin> set s \<Longrightarrow> fullmatch_group1 w s = Some (rev (takeWhile w (rev s)))"
proof (induction s)
  case Nil
  show ?case by simp
next
  case (Cons c cs)
  show ?case
  proof (cases "list_all w (c # cs)")
    case True
    then have "\<forall>x \<in> set (rev (c # cs)). w x"
      by (simp add: list_all_iff)
    then have tw: "takeWhile w (rev (c # cs)) = rev (c # cs)"
      by (simp only: takeWhile_eq_all_conv)
    show ?thesis
      using True by (simp only: fullmatch_group1.simps if_True tw rev_rev_ident)
  next
    case False
    have ih: "fullmatch_group1 w cs = Some (rev (takeWhile w (rev cs)))"
      using Cons by simp
    have "takeWhile w (rev cs @ [c]) = takeWhile w (rev cs)"
    proof (cases "list_all w cs")
      case True
      with False have nw: "\<not> w c" by simp
      from True have all: "\<forall>x \<in> set (rev cs). w x"
        by (simp add: list_all_iff)
      have "takeWhile w (rev cs @ [c]) = rev cs @ takeWhile w [c]"
        by (rule takeWhile_append2) (use all in blast)
      with nw have a: "takeWhile w (rev cs @ [c]) = rev cs"
        by simp
      have b: "takeWhile w (rev cs) = rev cs"
        using all by (simp only: takeWhile_eq_all_conv)
      show ?thesis
        by (simp only: a b)
    next
      case False
      then obtain x where "x \<in> set (rev cs)" "\<not> w x"
        by (auto simp: list_all_iff)
      then show ?thesis by (rule takeWhile_append1)
    qed
    with False ih Cons.prems show ?thesis by auto
  qed
qed

lemma py_or_explicit:
  "py_or a d = (if a \<noteq> None \<and> a \<noteq> Some [] then the a else d)"
  by (cases a) simp_all

text \<open>
  C8, as stated: the filter text never includes the already-typed prefix. In tab 1 the
  text before the cursor is \<open>pri\<close>, which is the typed prefix (the trailing run of word
  characters), and the server offers the candidate \<open>my_print\<close>: the filter text produced
  is \<open>print\<close>, which begins with \<open>pri\<close>.
\<close>

theorem filter_text_includes_typed_prefix:
  "fullmatch_group1 (word_char example_env)
     (textwidget_get_linestart_to (tabs example_env (info_tab example_info))
        (info_cursor_pos example_info)) = Some ''pri''
   \<and> map filter_text (resp_completions (snd (last (tab_events (snd (snd
         (handle_lsp_event example_env (Completion 0 [example_item_my_print])
            (example_requesting_session, example_world)))))))) = [''print'']
   \<and> take 3 ''print'' = ''pri''"
  by (simp add: example_requesting_session_def example_env_def example_tab_def
        example_info_def example_item_my_print_def example_world_def make_completion_def
        ascii_word_char_def isdigit_def)

text \<open>
  C8, amended. A completion response arrives for a pending request whose text before the
  cursor (from the start of the line) has no newline. With \<open>prefix_len\<close> the length of the
  longest trailing run of word characters of that text, the filter text of each produced
  candidate is the candidate's filter text if it has a non-empty one, else its insert text
  if that is non-empty, else its label, without its first \<open>prefix_len\<close> characters,
  whatever these are. When that text begins with the typed prefix, the filter text is what
  follows the prefix (typed \<open>pri\<close>, insert text \<open>print\<close>: filter text \<open>nt\<close>). The
  candidates are produced in the order of their sort keys (the sort text if non-empty, else
  the label).
\<close>

theorem completion_filter_text:
  fixes e :: env and info :: completion_info and items :: "CompletionItem list"
  defines "before \<equiv>
     textwidget_get_linestart_to (tabs e (info_tab info)) (info_cursor_pos info)"
  defines "typed \<equiv> rev (takeWhile (word_char e) (rev before))"
  defines "chosen \<equiv> \<lambda>item.
     if filterText item \<noteq> None \<and> filterText item \<noteq> Some [] then the (filterText item)
     else if insertText item \<noteq> None \<and> insertText item \<noteq> Some [] then the (insertText item)
     else label item"
  defines "sort_key_of \<equiv> \<lambda>item.
     if sortText item \<noteq> None \<and> sortText item \<noteq> Some [] then the (sortText item)
     else label item"
  assumes "completion_infos ls message_id = Some info"
    and "CHR 0x0A \<notin> set before"
  shows "fst (handle_lsp_event e (Completion message_id items) (ls, w)) = None
         \<and> (\<exists>resp.
           tab_events (snd (snd (handle_lsp_event e (Completion message_id items) (ls, w))))
             = tab_events w @ [(info_tab info, resp)]
           \<and> map filter_text (resp_completions resp) =
               map (\<lambda>item. drop (length typed) (chosen item)) (sort_key sort_key_of items)
           \<and> list_all2
               (\<lambda>c item. take (length typed) (chosen item) = typed
                           \<longrightarrow> typed @ filter_text c = chosen item)
               (resp_completions resp) (sort_key sort_key_of items))"
proof -
  let ?mk = "make_completion (tabs e (info_tab info)) (info_cursor_pos info) (length typed)"
  let ?resp = "\<lparr>resp_cursor_pos = info_cursor_pos info, resp_other = info_other info,
                 resp_completions = map ?mk (sort_key sort_key_of items)\<rparr>"
  have g: "fullmatch_group1 (word_char e) before = Some typed"
    using assms(6) unfolding typed_def by (rule fullmatch_group1_trailing_run)
  have k: "(\<lambda>item. py_or (sortText item) (label item)) = sort_key_of"
    unfolding sort_key_of_def by (rule ext) (simp only: py_or_explicit)
  have c: "py_or (filterText item) (py_or (insertText item) (label item)) = chosen item" for item
    unfolding chosen_def by (simp only: py_or_explicit)
  have f: "filter_text (?mk item) = drop (length typed) (chosen item)" for item
    by (simp add: make_completion_def c)
  have h: "handle_lsp_event e (Completion message_id items) (ls, w)
            = (None, ls\<lparr>completion_infos := (completion_infos ls)(message_id := None)\<rparr>,
               w\<lparr>tab_events := tab_events w @ [(info_tab info, ?resp)]\<rparr>)"
    using assms(5) g unfolding before_def by (simp add: Let_def k)
  have m: "map filter_text (resp_completions ?resp) =
             map (\<lambda>item. drop (length typed) (chosen item)) (sort_key sort_key_of items)"
    by (simp add: f comp_def)
  have "list_all2
               (\<lambda>c item. take (length typed) (chosen item) = typed
                           \<longrightarrow> typed @ filter_text c = chosen item)
               (map ?mk xs) xs" for xs
  proof (induction xs)
    case Nil
    show ?case by simp
  next
    case (Cons x xs)
    have "take (length typed) (chosen x) = typed \<Longrightarrow>
            typed @ drop (length typed) (chosen x) = chosen x"
      by (metis append_take_drop_id)
    with Cons show ?case
      by (simp add: f)
  qed
  then have l: "list_all2
               (\<lambda>c item. take (length typed) (chosen item) = typed
                           \<longrightarrow> typed @ filter_text c = chosen item)
               (resp_completions ?resp) (sort_key sort_key_of items)"
    by simp
  from h m l show ?thesis
    by (intro conjI exI [of _ ?resp]) simp_all
qed

theorem completion_filter_text_witness:
  "completion_infos example_requesting_session 0 = Some example_info
   \<and> textwidget_get_linestart_to (tabs example_env (info_tab example_info))
        (info_cursor_pos example_info) = ''pri''
   \<and> CHR 0x0A \<notin> set ''pri''
   \<and> map filter_text (resp_completions (snd (last (tab_events (snd (snd
         (handle_lsp_event example_env
            (Completion 0 [example_item_filter, example_item, example_item_label])
            (example_requesting_session, example_world))))))))
       = [''vate'', ''ntf'', ''nt'']
   \<and> map display_text (resp_completions (snd (last (tab_events (snd (snd
         (handle_lsp_event example_env
            (Completion 0 [example_item_filter, example_item, example_item_label])
            (example_requesting_session, example_world))))))))
       = [''private'', ''PRINT'', ''print(value)'']"
proof -
  have h1: "completion_infos example_requesting_session 0 = Some example_info"
    by (simp add: example_requesting_session_def)
  have b: "textwidget_get_linestart_to (tabs example_env (info_tab example_info))
        (info_cursor_pos example_info) = ''pri''"
    by (simp add: example_env_def example_tab_def example_info_def)
  have h2: "CHR 0x0A \<notin> set (textwidget_get_linestart_to (tabs example_env (info_tab example_info))
                        (info_cursor_pos example_info))"
    by (simp add: b)
  have t: "rev (takeWhile (word_char example_env) (rev ''pri'')) = ''pri''"
    by (simp add: example_env_def ascii_word_char_def isdigit_def)
  have s: "sort_key (\<lambda>item.
             if sortText item \<noteq> None \<and> sortText item \<noteq> Some [] then the (sortText item)
             else label item) [example_item_filter, example_item, example_item_label]
           = [example_item_label, example_item_filter, example_item]"
    by code_simp
  have d: "map display_text (resp_completions (snd (last (tab_events (snd (snd
         (handle_lsp_event example_env
            (Completion 0 [example_item_filter, example_item, example_item_label])
            (example_requesting_session, example_world))))))))
       = [''private'', ''PRINT'', ''print(value)'']"
    by code_simp
  from completion_filter_text [OF h1 h2,
         of "[example_item_filter, example_item, example_item_label]" example_world]
  obtain resp where
    "tab_events (snd (snd (handle_lsp_event example_env
            (Completion 0 [example_item_filter, example_item, example_item_label])
            (example_requesting_session, example_world))))
       = tab_events example_world @ [(info_tab example_info, resp)]"
    and "map filter_text (resp_completions resp) =
           map (\<lambda>item. drop (length (rev (takeWhile (word_char example_env)
                   (rev (textwidget_get_linestart_to (tabs example_env (info_tab example_info))
                          (info_cursor_pos example_info))))))
                  (if filterText item \<noteq> None \<and> filterText item \<noteq> Some []
                   then the (filterText item)
                   else if insertText item \<noteq> None \<and> insertText item \<noteq> Some []
                        then the (insertText item)
                        else label item))
             (sort_key (\<lambda>item.
                if sortText item \<noteq> None \<and> sortText item \<noteq> Some [] then the (sortText item)
                else label item) [example_item_filter, example_item, example_item_label])"
    by blast
  then have "map filter_text (resp_completions (snd (last (tab_events (snd (snd
         (handle_lsp_event example_env
            (Completion 0 [example_item_filter, example_item, example_item_label])
            (example_requesting_session, example_world))))))))
       = [''vate'', ''ntf'', ''nt'']"
    by (simp only: s b t) (simp add: example_item_filter_def example_item_def
          example_item_label_def)
  with h1 b d show ?thesis
    by simp
qed

text \<open>
  C1, as stated: an event of an unrecognized kind, or a completion response whose request
  id is not pending, tears the session down and is never handled by logging and going on.
  The polling step receives an unrecognized event, a completion response for request 7
  (nothing is pending) and a log message: both violations are logged, the log message is
  handled after them, the step returns \<open>True\<close> (it is scheduled again), and the session is
  still registered, its process not killed.
\<close>

theorem dispatch_continues_after_violation:
  "run_stuff_once example_env (Some [123])
     (Inr [OtherEvent ''ShowMessage'', Completion 7 [], LogMessage MT_INFO ''hello''])
     None 0 (example_session, example_world)
   = (True,
      example_session\<lparr>ls_log :=
        [(DEBUG, ''got %d bytes of data''),
         (ERROR, ''error while handling langserver event''),
         (ERROR, ''error while handling langserver event''),
         (INFO, ''message from langserver:'')]\<rparr>,
      example_world)
   \<and> is_in_langservers example_session example_world
   \<and> \<not> process_killed example_session"
  by (simp add: run_stuff_once_def example_session_def LangServer_init_def log_to_def
        loglevel_dict_def is_in_langservers_def example_world_def)

text \<open>
  C1, amended. For every dispatched event of an unrecognized kind, and for every
  completion response whose request id has no entry in the pending-completions table, the
  exception of the handler is caught by the dispatch loop and logged at error level; the
  session and the registry are otherwise unchanged, the loop goes on with the remaining
  events, and the polling step returns \<open>True\<close>: the session is not torn down.
\<close>

theorem protocol_violation_logged_and_skipped:
  "dispatch_events e (OtherEvent kind # evs) (ls, w)
     = dispatch_events e evs (log_to ERROR ''error while handling langserver event'' ls, w)
   \<and> (completion_infos ls message_id = None \<longrightarrow>
        dispatch_events e (Completion message_id items # evs) (ls, w)
          = dispatch_events e evs (log_to ERROR ''error while handling langserver event'' ls, w))
   \<and> fst (run_stuff_once e (Some (b # bs)) recv_result poll_result wait_result (ls, w)) = True"
  by (simp add: run_stuff_once_def Let_def split: sum.splits prod.splits)

theorem protocol_violation_logged_and_skipped_witness:
  "completion_infos example_session 7 = None
   \<and> dispatch_events example_env [Completion 7 [], OtherEvent ''ShowMessage'']
        (example_session, example_world)
      = (example_session\<lparr>ls_log := [(ERROR, ''error while handling langserver event''),
                                     (ERROR, ''error while handling langserver event'')]\<rparr>,
         example_world)"
proof -
  have h: "completion_infos example_session 7 = None"
    by (simp add: example_session_def LangServer_init_def)
  from protocol_violation_logged_and_skipped
         [of example_env "''ShowMessage''" "[]" _ example_world 7 "[]" 0 "[]" "Inr []" None 0]
       protocol_violation_logged_and_skipped
         [of example_env "''''" "[OtherEvent ''ShowMessage'']" example_session example_world 7 "[]" 0 "[]" "Inr []" None 0]
       h
  show ?thesis
    by (simp add: example_session_def LangServer_init_def log_to_def)
qed


lemma change_versions_append:
  "change_versions (xs @ ys) = change_versions xs @ change_versions ys"
  by (induction xs rule: change_versions.induct) simp_all

lemma open_versions_append:
  "open_versions (xs @ ys) = open_versions xs @ open_versions ys"
  by (induction xs rule: open_versions.induct) simp_all

lemma change_versions_opens: "change_versions (map (\<lambda>t. DidOpen (f t)) ts) = []"
  by (induction ts) simp_all

lemma open_versions_opens:
  "open_versions (map (\<lambda>t. DidOpen (f t)) ts) = map (\<lambda>t. version (f t)) ts"
  by (induction ts) simp_all

lemma quiet_step_consistent:
  assumes "quiet_step ls ls'" and "versions_consistent ls"
  shows "versions_consistent ls'"
proof -
  let ?extra = "drop (length (calls (lsp_client ls))) (calls (lsp_client ls'))"
  have "calls (lsp_client ls') =
          take (length (calls (lsp_client ls))) (calls (lsp_client ls')) @ ?extra"
    by simp
  with assms(1) have c: "calls (lsp_client ls') = calls (lsp_client ls) @ ?extra"
    by (simp add: quiet_step_def)
  from assms(1) have e: "change_versions ?extra = []"
    "list_all (\<lambda>v. v = 0) (open_versions ?extra)"
    "version_counter ls' = version_counter ls"
    by (simp_all add: quiet_step_def)
  have "change_versions (calls (lsp_client ls')) = change_versions (calls (lsp_client ls))"
    by (subst c) (simp add: change_versions_append e)
  moreover have "open_versions (calls (lsp_client ls'))
                   = open_versions (calls (lsp_client ls)) @ open_versions ?extra"
    by (subst c) (simp add: open_versions_append)
  ultimately show ?thesis
    using assms(2) e by (simp add: versions_consistent_def)
qed

lemma quiet_refl: "quiet_step ls ls"
  by (simp add: quiet_step_def)

lemma quiet_log: "quiet_step ls (log_to lvl msg ls)"
  by (simp add: quiet_step_def log_to_def)

lemma quiet_open_tab: "quiet_step ls (open_tab e tab ls)"
  by (simp add: quiet_step_def open_tab_def Let_def send_tab_opened_message_def did_open_def
        log_to_def)

lemma quiet_close_tab: "quiet_step ls (fst (snd (close_tab tab (ls, w))))"
  by (simp add: quiet_step_def close_tab_def Let_def log_to_def shutdown_def
        get_removed_from_langservers_def split: prod.splits)

lemma quiet_request_completions:
  "quiet_step ls (snd (request_completions e tab cursor other ls))"
  by (simp add: quiet_step_def request_completions_def Let_def log_to_def completions_def
        split: sum.splits prod.splits)

lemma quiet_handle_lsp_event: "quiet_step ls (fst (snd (handle_lsp_event e ev (ls, w))))"
proof (cases ev)
  case (Initialized caps)
  then show ?thesis
    by (simp add: send_tab_opened_messages quiet_step_def log_to_def change_versions_opens
          open_versions_opens list_all_iff)
next
  case Shutdown
  then show ?thesis
    by (simp add: quiet_step_def Let_def log_to_def exit_client_def
          get_removed_from_langservers_def split: prod.splits)
next
  case (Completion message_id items)
  then show ?thesis
    by (simp add: quiet_step_def Let_def split: option.splits)
next
  case PublishDiagnostics
  then show ?thesis by (simp add: quiet_refl)
next
  case (LogMessage t m)
  then show ?thesis by (simp add: quiet_log)
next
  case (OtherEvent k)
  then show ?thesis by (simp add: quiet_refl)
qed

lemma send_change_events_normal:
  assumes "state (lsp_client ls) = NORMAL" and "positions_ok infos"
  shows "\<exists>changes. content_changes infos = Inr changes
           \<and> send_change_events e tab infos ls =
               (None, ls\<lparr>version_counter := version_counter ls + 1,
                          lsp_client := did_change (get_uri e (path (tabs e tab)))
                                          (version_counter ls) changes (lsp_client ls)\<rparr>)"
  using assms
  by (auto simp: send_change_events_def positions_ok_def Let_def split: sum.splits)

lemma send_change_events_consistent:
  assumes "versions_consistent ls" and "positions_ok infos"
  shows "versions_consistent (snd (send_change_events e tab infos ls))"
proof (cases "state (lsp_client ls) = NORMAL")
  case True
  from send_change_events_normal [OF True assms(2), of e tab]
  obtain changes where
    "send_change_events e tab infos ls =
               (None, ls\<lparr>version_counter := version_counter ls + 1,
                          lsp_client := did_change (get_uri e (path (tabs e tab)))
                                          (version_counter ls) changes (lsp_client ls)\<rparr>)"
    by blast
  with assms(1) show ?thesis
    by (simp add: versions_consistent_def did_change_def change_versions_append
          open_versions_append)
next
  case False
  then show ?thesis
    using assms(1) by (simp add: send_change_events_def versions_consistent_def log_to_def)
qed

lemma apply_call_consistent:
  assumes "versions_consistent (fst lw)" and "call_positions_ok (e, c)"
  shows "versions_consistent (fst (apply_call e c lw))"
proof (cases lw)
  case (Pair ls w)
  show ?thesis
  proof (cases c)
    case (OpenTab tab)
    with Pair assms quiet_step_consistent [OF quiet_open_tab] show ?thesis by simp
  next
    case (CloseTab tab)
    with Pair assms quiet_step_consistent [OF quiet_close_tab, of ls tab w] show ?thesis
      by simp
  next
    case (RequestCompletions tab cursor other)
    with Pair assms quiet_step_consistent [OF quiet_request_completions] show ?thesis by simp
  next
    case (SendChangeEvents tab infos)
    with Pair assms send_change_events_consistent show ?thesis by simp
  next
    case (HandleEvent ev)
    with Pair assms quiet_step_consistent [OF quiet_handle_lsp_event, of ls e ev w] show ?thesis
      by simp
  next
    case (ClientStateBecomes st)
    with Pair assms show ?thesis by (simp add: versions_consistent_def)
  qed
qed

lemma run_calls_consistent:
  "versions_consistent (fst lw) \<Longrightarrow> list_all call_positions_ok cs \<Longrightarrow>
   versions_consistent (fst (run_calls cs lw))"
proof (induction cs arbitrary: lw)
  case Nil
  then show ?case by simp
next
  case (Cons ec cs)
  obtain e c where ec: "ec = (e, c)" by (cases ec)
  with Cons.prems have "versions_consistent (fst (apply_call e c lw))"
    by (simp add: apply_call_consistent)
  with Cons.IH [of "apply_call e c lw"] Cons.prems ec show ?case by simp
qed

text \<open>
  C10. A session starts with a client that has sent nothing; then any calls are made on it
  (tabs opened and closed, completions requested, changes sent for any tab, protocol events
  handled, the client changing state), the positions in change events being Tk indices.
  The change notifications sent carry the versions 0, 1, 2, ... in the order they were
  sent, whatever document each is for; every open notification carries version 0; and one
  more \<open>send_change_events\<close> call in state \<open>NORMAL\<close>, for any tab, sends the next integer.
\<close>

theorem version_counter_shared:
  assumes "calls client = []" and "list_all call_positions_ok cs"
  shows "change_versions (calls (lsp_client (fst (run_calls cs (LangServer_init ref lid client, w)))))
           = map int [0 ..< length (change_versions (calls (lsp_client
                 (fst (run_calls cs (LangServer_init ref lid client, w))))))]
         \<and> list_all (\<lambda>v. v = 0) (open_versions (calls (lsp_client
               (fst (run_calls cs (LangServer_init ref lid client, w))))))
         \<and> (state (lsp_client (fst (run_calls cs (LangServer_init ref lid client, w)))) = NORMAL
              \<and> positions_ok infos \<longrightarrow>
            change_versions (calls (lsp_client (snd (send_change_events e tab infos
                 (fst (run_calls cs (LangServer_init ref lid client, w)))))))
              = change_versions (calls (lsp_client
                    (fst (run_calls cs (LangServer_init ref lid client, w)))))
                @ [int (length (change_versions (calls (lsp_client
                    (fst (run_calls cs (LangServer_init ref lid client, w)))))))])"
proof -
  let ?ls = "fst (run_calls cs (LangServer_init ref lid client, w))"
  have "versions_consistent (LangServer_init ref lid client)"
    using assms(1) by (simp add: versions_consistent_def LangServer_init_def)
  then have c: "versions_consistent ?ls"
    using assms(2) run_calls_consistent [of "(LangServer_init ref lid client, w)" cs] by simp
  have "change_versions (calls (lsp_client (snd (send_change_events e tab infos ?ls))))
          = change_versions (calls (lsp_client ?ls))
            @ [int (length (change_versions (calls (lsp_client ?ls))))]"
    if "state (lsp_client ?ls) = NORMAL" "positions_ok infos"
  proof -
    from send_change_events_normal [OF that, of e tab]
    obtain changes where
      "send_change_events e tab infos ?ls =
               (None, ?ls\<lparr>version_counter := version_counter ?ls + 1,
                          lsp_client := did_change (get_uri e (path (tabs e tab)))
                                          (version_counter ?ls) changes (lsp_client ?ls)\<rparr>)"
      by blast
    with c show ?thesis
      by (simp add: versions_consistent_def did_change_def change_versions_append)
  qed
  with c show ?thesis
    by (simp add: versions_consistent_def)
qed


theorem version_counter_shared_witness:
  "calls example_client = []
   \<and> list_all call_positions_ok example_calls
   \<and> change_versions (calls (lsp_client (fst (run_calls example_calls
         (LangServer_init 1 example_id example_client, example_world))))) = [0, 1]
   \<and> open_versions (calls (lsp_client (fst (run_calls example_calls
         (LangServer_init 1 example_id example_client, example_world))))) = [0, 0]
   \<and> state (lsp_client (fst (run_calls example_calls
         (LangServer_init 1 example_id example_client, example_world)))) = NORMAL
   \<and> positions_ok [\<lparr>change_start = ''1.6'', change_end = ''1.6'', change_new_text = ''0''\<rparr>]
   \<and> change_versions (calls (lsp_client (snd (send_change_events example_env 2
         [\<lparr>change_start = ''1.6'', change_end = ''1.6'', change_new_text = ''0''\<rparr>]
         (fst (run_calls example_calls
            (LangServer_init 1 example_id example_client, example_world))))))) = [0, 1, 2]"
proof -
  have h1: "calls example_client = []"
    by (simp add: example_client_def)
  have h2: "list_all call_positions_ok example_calls"
    by code_simp
  have v: "change_versions (calls (lsp_client (fst (run_calls example_calls
         (LangServer_init 1 example_id example_client, example_world))))) = [0, 1]"
    by code_simp
  have ov: "open_versions (calls (lsp_client (fst (run_calls example_calls
         (LangServer_init 1 example_id example_client, example_world))))) = [0, 0]"
    by code_simp
  have st: "state (lsp_client (fst (run_calls example_calls
         (LangServer_init 1 example_id example_client, example_world)))) = NORMAL"
    by code_simp
  have p: "positions_ok [\<lparr>change_start = ''1.6'', change_end = ''1.6'', change_new_text = ''0''\<rparr>]"
    by code_simp
  from version_counter_shared [OF h1 h2, of 1 example_id example_world
         "[\<lparr>change_start = ''1.6'', change_end = ''1.6'', change_new_text = ''0''\<rparr>]"
         example_env 2]
  show ?thesis
    using h1 h2 v ov st p by simp
qed

section \<open>Properties of the executor\<close>

lemma inserted_append: "inserted (a @ b) = inserted a @ inserted b"
  by (induction a rule: inserted.induct) simp_all

lemma handle_queued_item_output:
  assumes "message_type = ''info'' \<or> message_type = ''output'' \<or> message_type = ''error''"
  shows "\<exists>g'. handle_queued_item at_end message_type txt g = Inr g'
           \<and> inserted g' = inserted g @ [txt]"
  using assms by (auto simp: handle_queued_item_def OUTPUT_TAGS_def inserted_append)

lemma handle_queued_item_end:
  "\<exists>g'. handle_queued_item at_end ''end'' [] g = Inr g' \<and> inserted g' = inserted g"
  by (simp add: handle_queued_item_def inserted_append)

lemma consume_queue_drains:
  assumes "list_all is_output_item items"
  shows "\<exists>g'. consume_queue at_end km (items @ (''end'', []) # later) g = Some (Inr g')
           \<and> inserted g' = inserted g @ map snd (filter (\<lambda>i. i \<noteq> (''error'', km)) items)"
  using assms
proof (induction items arbitrary: g)
  case Nil
  from handle_queued_item_end [of at_end g] show ?case
    by auto
next
  case (Cons item items)
  obtain t x where item: "item = (t, x)" by (cases item)
  from Cons.prems item have t: "t = ''info'' \<or> t = ''output'' \<or> t = ''error''"
    by (simp add: is_output_item_def)
  then have ne: "t \<noteq> ''end''" by auto
  from Cons.prems have rest: "list_all is_output_item items" by simp
  show ?case
  proof (cases "(t, x) = (''error'', km)")
    case True
    from Cons.IH [OF rest, of g] True item ne show ?thesis
      by auto
  next
    case False
    from handle_queued_item_output [OF t, of at_end x g]
    obtain g1 where g1: "handle_queued_item at_end t x g = Inr g1"
      "inserted g1 = inserted g @ [x]" by blast
    from Cons.IH [OF rest, of g1] g1 False item ne show ?thesis
      by auto
  qed
qed

lemma str_int_kill_status: "str_int (- 9) = ''-9''"
  by code_simp

text \<open>
  C7, as stated: every item the pump thread queued is appended to the output before
  \<open>Killed.\<close>. The command \<open>yes\<close> wrote one line and was killed (status -9): its thread
  queues the command line, the output line, the failure message and the end marker. \<open>stop\<close>
  takes all four from the queue, and appends the command line, the output line and
  \<open>Killed.\<close>: the queued failure message is not appended.
\<close>

theorem stop_drops_kill_status_message:
  "thread_target ''yes'' (Inr ([[CHR ''y'', CHR 0x0A]], - 9))
     = [(''info'', [CHR ''y'', CHR ''e'', CHR ''s'', CHR 0x0A]),
        (''output'', [CHR ''y'', CHR 0x0A]),
        (''error'', ''The process failed with status -9.''),
        (''end'', [])]
   \<and> map_option (map_sum id (inserted \<circ> gui))
        (stop False scrolled_to_end False False
           (thread_target ''yes'' (Inr ([[CHR ''y'', CHR 0x0A]], - 9))) example_executor)
     = Some (Inr [[CHR ''y'', CHR ''e'', CHR ''s'', CHR 0x0A], [CHR ''y'', CHR 0x0A], ''Killed.''])"
  by (simp add: thread_target_def str_int_kill_status stop_def example_executor_def
        handle_queued_item_def OUTPUT_TAGS_def scrolled_to_end_def)

text \<open>
  C7, amended. When \<open>stop\<close> is called with \<open>quitting=False\<close> on an executor whose process
  was started and killed and whose thread is alive, it takes from the queue every item the
  thread delivers up to and including the end marker, and appends each of them, in queue
  order, except the end marker and the message \<open>The process failed with status -9.\<close>
  (status 1 on Windows), which it leaves out on purpose; \<open>Killed.\<close> is appended after them
  and is the last text appended. The thread has ended when \<open>stop\<close> returns.
\<close>

theorem stop_drains_queue_then_Killed:
  assumes "has_shell_process ex" and "thread_alive ex = Some True"
    and "list_all is_output_item items"
  shows "\<exists>ex'. stop win32 at_end False False (items @ (''end'', []) # later) ex = Some (Inr ex')
           \<and> inserted (gui ex') =
               inserted (gui ex)
               @ map snd (filter (\<lambda>i. i \<noteq> (''error'',
                    ''The process failed with status '' @ str_int (if win32 then 1 else - 9) @ ''.''))
                    items)
               @ [''Killed.'']
           \<and> thread_alive ex' = Some False"
proof -
  let ?km = "''The process failed with status '' @ str_int (if win32 then 1 else - 9) @ ''.''"
  let ?ex1 = "(case timeout_id ex of
                   None \<Rightarrow> ex
                 | Some t \<Rightarrow> ex\<lparr>timeout_id := None, gui := gui ex @ [AfterCancel t]\<rparr>)"
  have e1: "has_shell_process ?ex1" "thread_alive ?ex1 = Some True"
    "inserted (gui ?ex1) = inserted (gui ex)"
    using assms(1,2) by (auto simp: inserted_append split: option.splits)
  from consume_queue_drains [OF assms(3), of at_end ?km later "gui ?ex1"]
  obtain g where g: "consume_queue at_end ?km (items @ (''end'', []) # later) (gui ?ex1) = Some (Inr g)"
    "inserted g = inserted (gui ?ex1) @ map snd (filter (\<lambda>i. i \<noteq> (''error'', ?km)) items)"
    by blast
  from handle_queued_item_output [of "''error''" at_end "''Killed.''" g]
  obtain g' where g': "handle_queued_item at_end ''error'' ''Killed.'' g = Inr g'"
    "inserted g' = inserted g @ [''Killed.'']" by auto
  show ?thesis
    using e1 g g' by (simp add: stop_def Let_def inserted_append)
qed


theorem stop_drains_queue_then_Killed_witness:
  "has_shell_process example_executor
   \<and> thread_alive example_executor = Some True
   \<and> list_all is_output_item
        [(''info'', [CHR ''y'', CHR ''e'', CHR ''s'', CHR 0x0A]),
         (''output'', [CHR ''y'', CHR 0x0A]),
         (''error'', ''The process failed with status -9.'')]
   \<and> map_option (map_sum id (inserted \<circ> gui))
        (stop False scrolled_to_end False False
           ([(''info'', [CHR ''y'', CHR ''e'', CHR ''s'', CHR 0x0A]),
             (''output'', [CHR ''y'', CHR 0x0A]),
             (''error'', ''The process failed with status -9.'')] @ (''end'', []) # [])
           example_executor)
     = Some (Inr [[CHR ''y'', CHR ''e'', CHR ''s'', CHR 0x0A], [CHR ''y'', CHR 0x0A], ''Killed.''])"
proof -
  have h1: "has_shell_process example_executor"
    by (simp add: example_executor_def)
  have h2: "thread_alive example_executor = Some True"
    by (simp add: example_executor_def)
  have h3: "list_all is_output_item
        [(''info'', [CHR ''y'', CHR ''e'', CHR ''s'', CHR 0x0A]),
         (''output'', [CHR ''y'', CHR 0x0A]),
         (''error'', ''The process failed with status -9.'')]"
    by (simp add: is_output_item_def)
  from stop_drains_queue_then_Killed [OF h1 h2 h3, of False scrolled_to_end "[]"]
  obtain ex' where
    "stop False scrolled_to_end False False
           ([(''info'', [CHR ''y'', CHR ''e'', CHR ''s'', CHR 0x0A]),
             (''output'', [CHR ''y'', CHR 0x0A]),
             (''error'', ''The process failed with status -9.'')] @ (''end'', []) # [])
           example_executor = Some (Inr ex')"
    and "inserted (gui ex') =
           inserted (gui example_executor)
           @ map snd (filter (\<lambda>i. i \<noteq> (''error'',
                ''The process failed with status '' @ str_int (if False then 1 else - 9) @ ''.''))
                [(''info'', [CHR ''y'', CHR ''e'', CHR ''s'', CHR 0x0A]),
                 (''output'', [CHR ''y'', CHR 0x0A]),
                 (''error'', ''The process failed with status -9.'')])
           @ [''Killed.'']"
    by blast
  then show ?thesis
    using h1 h2 h3 by (simp add: str_int_kill_status example_executor_def)
qed

end
